theory Spec2Isabelle
  imports
    Main
    "HOL-Library.Char_ord"
    "HOL-Library.List_Lexorder"
    "HOL-Library.Product_Lexorder"
    "HOL-Library.Multiset"
begin

section \<open>The book catalogue routes of \<^verbatim>\<open>src/routes/books.js\<close>\<close>

text \<open>
  The file holds six Express handlers over a Mongoose model \<^verbatim>\<open>Book\<close> and the
  \<^verbatim>\<open>qrcode\<close> encoder. Each handler is embedded as a function from the request and
  the collection to the reply and the collection afterwards; a request is handled alone, from
  its first line to its reply. What the handlers call but do not define (the encoder, the
  identifier cast of the model, the reachability of the database) is a field of the
  environment \<open>env\<close>; the clock and the identifier that \<^verbatim>\<open>new Book\<close> draws are
  arguments of the handler that uses them. A request body is the object the JSON parser has
  made of it, and a route parameter is a text. The \<^verbatim>\<open>authenticate\<close> middleware runs
  before each handler and is not part of it.
\<close>

subsection \<open>JavaScript values\<close>

text \<open>
  The values a parsed JSON body, a route parameter or a stored document can hold. The
  handlers never compute with a number: they test it for truthiness and print it. A number
  is therefore carried by the text ECMAScript's \<^verbatim>\<open>Number::toString\<close> gives it
  (\<^verbatim>\<open>29.99\<close>, \<^verbatim>\<open>0\<close>, \<^verbatim>\<open>NaN\<close>), which names a double uniquely (both zeros print as
  \<^verbatim>\<open>0\<close>). A \<^verbatim>\<open>Date\<close> is its time value, milliseconds since the epoch. An object is
  the list of its own properties in property order. Strings are lists of 8-bit characters.
\<close>

datatype json =
    JUndefined
  | JNull
  | JBool bool
  | JNum string
  | JStr string
  | JDate nat
  | JArr "json list"
  | JObj "(string \<times> json) list"

type_synonym obj = "(string \<times> json) list"

text \<open>Reading a property: \<^verbatim>\<open>o.k\<close> is \<^verbatim>\<open>undefined\<close> when \<open>o\<close> has no property \<open>k\<close>.\<close>

definition js_get :: "obj \<Rightarrow> string \<Rightarrow> json" where
  "js_get ob k = (case map_of ob k of None \<Rightarrow> JUndefined | Some v \<Rightarrow> v)"

text \<open>Writing a property, \<^verbatim>\<open>o.k = v\<close>: in place when \<open>o\<close> has \<open>k\<close>, else added last.\<close>

fun js_set :: "string \<Rightarrow> json \<Rightarrow> obj \<Rightarrow> obj" where
  "js_set k v [] = [(k, v)]"
| "js_set k v ((k', v') # ps) =
     (if k' = k then (k, v) # ps else (k', v') # js_set k v ps)"

definition Object_keys :: "obj \<Rightarrow> string list" where
  "Object_keys ob = map fst ob"

text \<open>\<^verbatim>\<open>ToBoolean\<close>: the values that \<^verbatim>\<open>!x\<close> rejects are exactly the falsy ones.\<close>

fun truthy :: "json \<Rightarrow> bool" where
  "truthy JUndefined = False"
| "truthy JNull = False"
| "truthy (JBool b) = b"
| "truthy (JNum t) = (t \<noteq> ''0'' \<and> t \<noteq> ''NaN'')"
| "truthy (JStr s) = (s \<noteq> [])"
| "truthy (JDate t) = True"
| "truthy (JArr xs) = True"
| "truthy (JObj ps) = True"

subsubsection \<open>Property order and object spread\<close>

text \<open>
  ECMAScript lists the own properties of an object with the array indices first, in
  ascending numeric order, and the other names after them in the order of creation. An
  array index is a canonical numeric string below \<open>2^32 - 1\<close>.
\<close>

definition is_digit :: "char \<Rightarrow> bool" where
  "is_digit c = (CHR ''0'' \<le> c \<and> c \<le> CHR ''9'')"

definition digit_val :: "char \<Rightarrow> nat" where
  "digit_val c = of_char c - of_char CHR ''0''"

definition dec_val :: "string \<Rightarrow> nat" where
  "dec_val s = foldl (\<lambda>n c. 10 * n + digit_val c) 0 s"

definition is_array_index :: "string \<Rightarrow> bool" where
  "is_array_index k =
     (k \<noteq> [] \<and> list_all is_digit k \<and> (k = ''0'' \<or> hd k \<noteq> CHR ''0'')
      \<and> dec_val k < 2 ^ 32 - 1)"

definition own_property_order :: "obj \<Rightarrow> obj" where
  "own_property_order ob =
     sort_key (\<lambda>p. dec_val (fst p)) (filter (\<lambda>p. is_array_index (fst p)) ob)
     @ filter (\<lambda>p. \<not> is_array_index (fst p)) ob"

text \<open>
  \<^verbatim>\<open>{ ...a, ...b }\<close>: a new object receives the properties of \<open>a\<close>, then those of
  \<open>b\<close>, each by assignment, so that a name of \<open>b\<close> that \<open>a\<close> has keeps the place it
  had in \<open>a\<close> and takes the value of \<open>b\<close>.
\<close>

definition spread :: "obj \<Rightarrow> obj \<Rightarrow> obj" where
  "spread a b = own_property_order (fold (\<lambda>(k, v). js_set k v) b (fold (\<lambda>(k, v). js_set k v) a []))"

subsubsection \<open>\<^verbatim>\<open>Date.prototype.toISOString\<close>\<close>

fun dec_digits :: "nat \<Rightarrow> string" where
  "dec_digits n =
     (if n < 10 then [''0123456789'' ! n]
      else dec_digits (n div 10) @ [''0123456789'' ! (n mod 10)])"

declare dec_digits.simps [simp del]

definition pad0 :: "nat \<Rightarrow> nat \<Rightarrow> string" where
  "pad0 w n = replicate (w - length (dec_digits n)) CHR ''0'' @ dec_digits n"

text \<open>
  The civil date of a day number counted from 1970-01-01, in the proleptic Gregorian
  calendar: the year, the month and the day of the month. The computation works in eras of
  400 years that start on a first of March.
\<close>

definition civil_from_days :: "nat \<Rightarrow> nat \<times> nat \<times> nat" where
  "civil_from_days days =
     (let z = days + 719468;
          era = z div 146097;
          doe = z mod 146097;
          yoe = (doe - doe div 1460 + doe div 36524 - doe div 146096) div 365;
          doy = doe - (365 * yoe + yoe div 4 - yoe div 100);
          mp = (5 * doy + 2) div 153;
          d = doy - (153 * mp + 2) div 5 + 1;
          m = (if mp < 10 then mp + 3 else mp - 9);
          y = yoe + era * 400 + (if m \<le> 2 then 1 else 0)
      in (y, m, d))"

text \<open>
  The ISO text of a time value, \<^verbatim>\<open>YYYY-MM-DDTHH:mm:ss.sssZ\<close>, for the years 1970 to
  9999, which hold every value of \<^verbatim>\<open>new Date()\<close>.
\<close>

definition toISOString :: "nat \<Rightarrow> string" where
  "toISOString t =
     (case civil_from_days (t div 86400000) of (y, m, d) \<Rightarrow>
        pad0 4 y @ ''-'' @ pad0 2 m @ ''-'' @ pad0 2 d @ ''T''
        @ pad0 2 (t div 3600000 mod 24) @ '':'' @ pad0 2 (t div 60000 mod 60) @ '':''
        @ pad0 2 (t div 1000 mod 60) @ ''.'' @ pad0 3 (t mod 1000) @ ''Z'')"

subsubsection \<open>\<^verbatim>\<open>JSON.stringify\<close>\<close>

fun join_with :: "string \<Rightarrow> string list \<Rightarrow> string" where
  "join_with sep [] = []"
| "join_with sep [x] = x"
| "join_with sep (x # y # ys) = x @ sep @ join_with sep (y # ys)"

definition hex_digit :: "nat \<Rightarrow> char" where
  "hex_digit n = ''0123456789abcdef'' ! (n mod 16)"

text \<open>
  \<^verbatim>\<open>QuoteJSONString\<close>: the double quote and the backslash are escaped, the control
  characters below \<open>0x20\<close> take their short escape or \<^verbatim>\<open>\u00XX\<close>, every other character
  stands for itself.
\<close>

definition QuoteJSONChar :: "char \<Rightarrow> string" where
  "QuoteJSONChar c =
     (if c = CHR 0x22 then [CHR 0x5C, CHR 0x22]
      else if c = CHR 0x5C then [CHR 0x5C, CHR 0x5C]
      else if c = CHR 0x08 then [CHR 0x5C, CHR ''b'']
      else if c = CHR 0x0C then [CHR 0x5C, CHR ''f'']
      else if c = CHR 0x0A then [CHR 0x5C, CHR ''n'']
      else if c = CHR 0x0D then [CHR 0x5C, CHR ''r'']
      else if c = CHR 0x09 then [CHR 0x5C, CHR ''t'']
      else if of_char c < (0x20 :: nat)
        then [CHR 0x5C, CHR ''u'', CHR ''0'', CHR ''0'',
              hex_digit (of_char c div 16), hex_digit (of_char c)]
      else [c])"

definition QuoteJSONString :: "string \<Rightarrow> string" where
  "QuoteJSONString s = CHR 0x22 # concat (map QuoteJSONChar s) @ [CHR 0x22]"

text \<open>
  \<^verbatim>\<open>JSON.stringify\<close> gives no text for \<^verbatim>\<open>undefined\<close> (\<open>None\<close>). A property of an
  object whose value has no text is left out; an element of an array that has none is
  written \<^verbatim>\<open>null\<close>. A \<^verbatim>\<open>Date\<close> is written through its \<^verbatim>\<open>toJSON\<close>, the ISO text.
\<close>

fun JSON_stringify :: "json \<Rightarrow> string option" where
  "JSON_stringify JUndefined = None"
| "JSON_stringify JNull = Some ''null''"
| "JSON_stringify (JBool b) = Some (if b then ''true'' else ''false'')"
| "JSON_stringify (JNum t) =
     Some (if t = ''NaN'' \<or> t = ''Infinity'' \<or> t = ''-Infinity'' then ''null'' else t)"
| "JSON_stringify (JStr s) = Some (QuoteJSONString s)"
| "JSON_stringify (JDate t) = Some (QuoteJSONString (toISOString t))"
| "JSON_stringify (JArr xs) =
     Some (''['' @ join_with '',''
        (map (\<lambda>x. case JSON_stringify x of None \<Rightarrow> ''null'' | Some t \<Rightarrow> t) xs) @ '']'')"
| "JSON_stringify (JObj ps) =
     Some (''{'' @ join_with '',''
        (concat (map (\<lambda>p. case JSON_stringify (snd p) of None \<Rightarrow> []
                         | Some t \<Rightarrow> [QuoteJSONString (fst p) @ '':'' @ t]) ps)) @ ''}'')"

subsection \<open>The collaborators\<close>

text \<open>
  Modelled from the spec: the types of the fields of a record, from the data model of the
  specification (the schema \<^verbatim>\<open>models/book.js\<close> is not among the sources). The fields
  are texts, except the price, a number, and the two dates.
\<close>

datatype kind = Text | Numeric | Date

definition schema :: "string \<Rightarrow> kind option" where
  "schema f =
     (if f \<in> set [''title'', ''author'', ''publisher'', ''isbn'', ''exam'', ''subject'',
                   ''description'', ''language'', ''qrCode'']
      then Some Text
      else if f = ''price'' then Some Numeric
      else if f \<in> set [''publicationDate'', ''addedDate''] then Some Date
      else None)"

fun of_kind :: "kind \<Rightarrow> json \<Rightarrow> bool" where
  "of_kind Text (JStr s) = True"
| "of_kind Numeric (JNum t) = True"
| "of_kind Date (JDate t) = True"
| "of_kind k v = False"

text \<open>
  \<^verbatim>\<open>QRCode.toDataURL\<close> is a function of the text it is given and may reject it.
  \<^verbatim>\<open>castObjectId\<close> is the cast Mongoose applies to a value queried against
  \<^verbatim>\<open>_id\<close>: it gives the identifier in the form the collection holds it, or raises a
  \<^verbatim>\<open>CastError\<close> (\<open>None\<close>) for a text that is no identifier. \<open>convert\<close> is what
  the model makes of a submitted value that is not of the type of its field (a text
  submitted for a date, say) when it creates a document. \<open>store_up\<close> tells whether the
  database answers during the request.
\<close>

record env =
  toDataURL :: "string \<Rightarrow> string option"
  castObjectId :: "string \<Rightarrow> string option"
  convert :: "kind \<Rightarrow> json \<Rightarrow> json"
  store_up :: bool

text \<open>What a call inside a \<^verbatim>\<open>try\<close> block can throw.\<close>

datatype thrown =
    EncoderError
  | CastError
  | StoreUnavailable
  | DuplicateKey
  | ImmutableField

text \<open>The collection: the stored documents in the order the store returns them.\<close>

type_synonym store = "obj list"

definition doc_id :: "obj \<Rightarrow> json" where
  "doc_id d = js_get d ''_id''"

text \<open>
  The model \<^verbatim>\<open>models/book.js\<close> and the store behind it are not among the sources. The
  operations the routes call on them follow the store contract of the specification: a
  key-indexed record store with insert-one, find-all, find-all-with-sort-spec,
  find-one-by-field-equality, find-by-id, delete-by-id and update-by-id-partial, whose
  identifiers are store-assigned, store-unique and immutable. A document keeps its fields
  under the names they are given; the store adds the identifier and nothing else. An
  operation fails as a whole (\<open>Inl\<close>) and then leaves the collection as it was.
\<close>

text \<open>
  Modelled from the spec: the value a new document holds for a field. A value of the type
  of the field is held as it is; any other value is held as the model converts it.
\<close>

definition castField :: "env \<Rightarrow> string \<Rightarrow> json \<Rightarrow> json" where
  "castField e f v =
     (case schema f of
        None \<Rightarrow> v
      | Some k \<Rightarrow> if of_kind k v then v else convert e k v)"

text \<open>
  Modelled from the spec: \<^verbatim>\<open>new Book(props)\<close> of the missing model. The document gets
  its identifier and the fields of \<open>props\<close>, each as the model types it, without those
  whose value is \<^verbatim>\<open>undefined\<close>.
\<close>

definition new_Book :: "env \<Rightarrow> string \<Rightarrow> obj \<Rightarrow> obj" where
  "new_Book e new_id props =
     (''_id'', JStr new_id)
     # map (\<lambda>p. (fst p, castField e (fst p) (snd p))) (filter (\<lambda>p. snd p \<noteq> JUndefined) props)"

text \<open>
  Modelled from the spec: \<^verbatim>\<open>book.toObject()\<close>, the plain object of the stored fields, the
  identifier among them.
\<close>

definition toObject :: "obj \<Rightarrow> obj" where
  "toObject d = d"

text \<open>
  Modelled from the spec: \<^verbatim>\<open>book.save()\<close>, insert-one. The document is added last; an
  identifier that a stored document has is refused.
\<close>

definition Book_save :: "env \<Rightarrow> obj \<Rightarrow> store \<Rightarrow> thrown + store" where
  "Book_save e d s =
     (if \<not> store_up e then Inl StoreUnavailable
      else if doc_id d \<in> set (map doc_id s) then Inl DuplicateKey
      else Inr (s @ [d]))"

text \<open>Modelled from the spec: \<^verbatim>\<open>Book.find()\<close>, find-all, in the order of the store.\<close>

definition Book_find :: "env \<Rightarrow> store \<Rightarrow> thrown + obj list" where
  "Book_find e s = (if \<not> store_up e then Inl StoreUnavailable else Inr s)"

text \<open>
  Modelled from the spec: the order of a sort specification. The sort route admits two sort
  fields, a text and a date; texts compare character by character and dates by time. A
  value of another kind compares by its kind alone, and a missing field sorts as
  \<^verbatim>\<open>null\<close>, before every text and every date.
\<close>

fun bson_key :: "json \<Rightarrow> nat \<times> string \<times> nat" where
  "bson_key JUndefined = (0, [], 0)"
| "bson_key JNull = (0, [], 0)"
| "bson_key (JNum t) = (1, [], 0)"
| "bson_key (JStr s) = (2, s, 0)"
| "bson_key (JObj ps) = (3, [], 0)"
| "bson_key (JArr xs) = (4, [], 0)"
| "bson_key (JBool b) = (5, [], if b then 1 else 0)"
| "bson_key (JDate t) = (6, [], t)"

text \<open>
  Modelled from the spec: \<^verbatim>\<open>Book.find().sort({ [field]: direction })\<close>,
  find-all-with-sort-spec, with direction \<open>1\<close> ascending and \<open>-1\<close> descending.
  Documents with equal keys stay in the order of the collection.
\<close>

definition Book_find_sort :: "env \<Rightarrow> string \<Rightarrow> int \<Rightarrow> store \<Rightarrow> thrown + obj list" where
  "Book_find_sort e field direction s =
     (if \<not> store_up e then Inl StoreUnavailable
      else if direction = 1 then Inr (sort_key (\<lambda>d. bson_key (js_get d field)) s)
      else Inr (rev (sort_key (\<lambda>d. bson_key (js_get d field)) (rev s))))"

text \<open>The two queries the detail route builds: \<^verbatim>\<open>{ isbn: k }\<close> and \<^verbatim>\<open>{ _id: k }\<close>.\<close>

datatype query = Q_isbn string | Q_id string

text \<open>
  Modelled from the spec: \<^verbatim>\<open>Book.findOne(query)\<close>, find-one-by-field-equality: the first
  document whose field equals the key. A key queried against \<^verbatim>\<open>_id\<close> is cast first, and
  a key that is no identifier makes the query throw.
\<close>

definition Book_findOne :: "env \<Rightarrow> query \<Rightarrow> store \<Rightarrow> thrown + obj option" where
  "Book_findOne e q s =
     (case q of
        Q_isbn k \<Rightarrow>
          (if \<not> store_up e then Inl StoreUnavailable
           else Inr (find (\<lambda>d. js_get d ''isbn'' = JStr k) s))
      | Q_id k \<Rightarrow>
          (case castObjectId e k of
             None \<Rightarrow> Inl CastError
           | Some i \<Rightarrow>
               (if \<not> store_up e then Inl StoreUnavailable
                else Inr (find (\<lambda>d. doc_id d = JStr i) s))))"

text \<open>Modelled from the spec: \<^verbatim>\<open>Book.findById(id)\<close>, find-by-id.\<close>

definition Book_findById :: "env \<Rightarrow> string \<Rightarrow> store \<Rightarrow> thrown + obj option" where
  "Book_findById e k s = Book_findOne e (Q_id k) s"

text \<open>
  Modelled from the spec: \<^verbatim>\<open>Book.findByIdAndDelete(id)\<close>, delete-by-id: the document
  with the identifier is removed and returned, or nothing is found and nothing removed.
\<close>

definition Book_findByIdAndDelete ::
  "env \<Rightarrow> string \<Rightarrow> store \<Rightarrow> thrown + (obj option \<times> store)" where
  "Book_findByIdAndDelete e k s =
     (case castObjectId e k of
        None \<Rightarrow> Inl CastError
      | Some i \<Rightarrow>
          (if \<not> store_up e then Inl StoreUnavailable
           else (case find (\<lambda>d. doc_id d = JStr i) s of
                   None \<Rightarrow> Inr (None, s)
                 | Some d \<Rightarrow> Inr (Some d, remove1 d s))))"

text \<open>The first document that satisfies \<open>P\<close> is replaced by \<open>d'\<close>.\<close>

fun replace_first :: "(obj \<Rightarrow> bool) \<Rightarrow> obj \<Rightarrow> store \<Rightarrow> store" where
  "replace_first P d' [] = []"
| "replace_first P d' (d # ds) = (if P d then d' # ds else d # replace_first P d' ds)"

text \<open>
  Modelled from the spec: \<^verbatim>\<open>Book.findByIdAndUpdate(id, upd, { new: true })\<close>,
  update-by-id-partial. Every property of \<open>upd\<close> is set on the document (the names of
  \<open>upd\<close> are field names), and the document after the update is returned. An update that
  would give the document another identifier is refused.
\<close>

definition Book_findByIdAndUpdate ::
  "env \<Rightarrow> string \<Rightarrow> obj \<Rightarrow> store \<Rightarrow> thrown + (obj option \<times> store)" where
  "Book_findByIdAndUpdate e k upd s =
     (case castObjectId e k of
        None \<Rightarrow> Inl CastError
      | Some i \<Rightarrow>
          (if \<not> store_up e then Inl StoreUnavailable
           else (case find (\<lambda>d. doc_id d = JStr i) s of
                   None \<Rightarrow> Inr (None, s)
                 | Some d \<Rightarrow>
                     (if list_ex (\<lambda>p. fst p = ''_id'' \<and> snd p \<noteq> JStr i) upd
                      then Inl ImmutableField
                      else (let d' = fold (\<lambda>(k, v). js_set k v) upd d
                            in Inr (Some d', replace_first (\<lambda>x. doc_id x = JStr i) d' s))))))"

subsection \<open>The routes\<close>

text \<open>A reply: \<^verbatim>\<open>res.status(n).send(text)\<close> or \<^verbatim>\<open>res.status(n).json(value)\<close>.\<close>

datatype reply = Send nat string | Json nat json

text \<open>
  \<^verbatim>\<open>POST /add\<close>. \<open>now\<close> is the value of \<^verbatim>\<open>new Date()\<close> and \<open>new_id\<close> the
  identifier \<^verbatim>\<open>new Book\<close> draws.
\<close>

definition post_add :: "env \<Rightarrow> nat \<Rightarrow> string \<Rightarrow> obj \<Rightarrow> store \<Rightarrow> reply \<times> store" where
  "post_add e now new_id body s =
     (let title = js_get body ''title'';
          author = js_get body ''author'';
          publisher = js_get body ''publisher'';
          exam = js_get body ''exam'';
          subject = js_get body ''subject'';
          description = js_get body ''description'';
          price = js_get body ''price'';
          language = js_get body ''language'';
          isbn = js_get body ''isbn'';
          publicationDate = js_get body ''publicationDate''
      in
        if \<not> truthy title \<or> \<not> truthy author \<or> \<not> truthy publisher \<or> \<not> truthy isbn
        then (Send 400 ''Title, author, publisher, and ISBN are required.'', s)
        else
          (case JSON_stringify (JObj
                  [(''title'', title), (''author'', author), (''publisher'', publisher),
                   (''exam'', exam), (''subject'', subject), (''description'', description),
                   (''price'', price), (''language'', language), (''isbn'', isbn),
                   (''publicationDate'', publicationDate)]) of
             None \<Rightarrow> (Send 500 ''Error adding book'', s)
           | Some qrData \<Rightarrow>
               (case toDataURL e qrData of
                  None \<Rightarrow> (Send 500 ''Error adding book'', s)
                | Some qrCode \<Rightarrow>
                    (let book = new_Book e new_id
                           [(''title'', title), (''author'', author), (''publisher'', publisher),
                            (''exam'', exam), (''subject'', subject),
                            (''description'', description), (''price'', price),
                            (''language'', language), (''isbn'', isbn),
                            (''publicationDate'', publicationDate),
                            (''qrCode'', JStr qrCode), (''addedDate'', JDate now)]
                     in (case Book_save e book s of
                           Inl err \<Rightarrow> (Send 500 ''Error adding book'', s)
                         | Inr s' \<Rightarrow> (Json 201 (JObj book), s'))))))"

text \<open>\<^verbatim>\<open>GET /\<close>.\<close>

definition get_all :: "env \<Rightarrow> store \<Rightarrow> reply \<times> store" where
  "get_all e s =
     (case Book_find e s of
        Inl err \<Rightarrow> (Send 500 ''Error fetching books'', s)
      | Inr books \<Rightarrow> (Json 200 (JArr (map JObj books)), s))"

text \<open>
  \<^verbatim>\<open>GET /sort\<close>. A query parameter that the request does not carry is
  \<^verbatim>\<open>undefined\<close>; \<^verbatim>\<open>includes\<close> compares with the two admitted texts.
\<close>

definition get_sort :: "env \<Rightarrow> json \<Rightarrow> json \<Rightarrow> store \<Rightarrow> reply \<times> store" where
  "get_sort e sortBy order s =
     (if sortBy \<notin> set [JStr ''addedDate'', JStr ''title'']
      then (Send 400 ''Invalid sort field'', s)
      else if order \<notin> set [JStr ''asc'', JStr ''desc'']
      then (Send 400 ''Invalid sort order'', s)
      else (case Book_find_sort e (case sortBy of JStr f \<Rightarrow> f | _ \<Rightarrow> [])
                   (if order = JStr ''asc'' then 1 else - 1) s of
              Inl err \<Rightarrow> (Send 500 ''Error sorting books'', s)
            | Inr books \<Rightarrow> (Json 200 (JArr (map JObj books)), s)))"

text \<open>\<^verbatim>\<open>GET /detail/:idOrIsbn\<close>. The pattern \<^verbatim>\<open>/^[0-9]+$/\<close> asks for one digit or more
  and nothing else.\<close>

definition digits_only :: "string \<Rightarrow> bool" where
  "digits_only k = (k \<noteq> [] \<and> list_all is_digit k)"

definition get_detail :: "env \<Rightarrow> string \<Rightarrow> store \<Rightarrow> reply \<times> store" where
  "get_detail e idOrIsbn s =
     (let query = (if digits_only idOrIsbn then Q_isbn idOrIsbn else Q_id idOrIsbn)
      in (case Book_findOne e query s of
            Inl err \<Rightarrow> (Send 500 ''Error fetching book details'', s)
          | Inr None \<Rightarrow> (Send 404 ''Book not found'', s)
          | Inr (Some book) \<Rightarrow> (Json 200 (JObj book), s)))"

text \<open>\<^verbatim>\<open>DELETE /delete/:id\<close>.\<close>

definition delete_delete :: "env \<Rightarrow> string \<Rightarrow> store \<Rightarrow> reply \<times> store" where
  "delete_delete e book_id s =
     (case Book_findByIdAndDelete e book_id s of
        Inl err \<Rightarrow> (Send 500 ''Error deleting book'', s)
      | Inr (None, s') \<Rightarrow> (Send 404 ''Book not found'', s')
      | Inr (Some book, s') \<Rightarrow> (Send 200 ''Book deleted successfully'', s'))"

text \<open>\<^verbatim>\<open>PUT /edit/:id\<close>.\<close>

definition fieldsForQRCode :: "string list" where
  "fieldsForQRCode =
     [''title'', ''author'', ''publisher'', ''exam'', ''subject'', ''description'',
      ''price'', ''language'', ''isbn'', ''publicationDate'']"

definition shouldUpdateQRCode :: "obj \<Rightarrow> bool" where
  "shouldUpdateQRCode updatedDetails =
     list_ex (\<lambda>field. field \<in> set fieldsForQRCode) (Object_keys updatedDetails)"

text \<open>The text the edit route hands to the encoder.\<close>

definition edit_qrData :: "obj \<Rightarrow> obj \<Rightarrow> string option" where
  "edit_qrData book updatedDetails =
     JSON_stringify (JObj (spread (toObject book) updatedDetails))"

definition put_edit :: "env \<Rightarrow> string \<Rightarrow> obj \<Rightarrow> store \<Rightarrow> reply \<times> store" where
  "put_edit e book_id updatedDetails s =
     (case Book_findById e book_id s of
        Inl err \<Rightarrow> (Send 500 ''Error editing book'', s)
      | Inr None \<Rightarrow> (Send 404 ''Book not found'', s)
      | Inr (Some book) \<Rightarrow>
          (case (if shouldUpdateQRCode updatedDetails
                 then (case edit_qrData book updatedDetails of
                         None \<Rightarrow> Inl EncoderError
                       | Some qrData \<Rightarrow>
                           (case toDataURL e qrData of
                              None \<Rightarrow> Inl EncoderError
                            | Some qrCode \<Rightarrow>
                                Inr (js_set ''qrCode'' (JStr qrCode) updatedDetails)))
                 else Inr updatedDetails) of
             Inl err \<Rightarrow> (Send 500 ''Error editing book'', s)
           | Inr updatedDetails' \<Rightarrow>
               (case Book_findByIdAndUpdate e book_id updatedDetails' s of
                  Inl err \<Rightarrow> (Send 500 ''Error editing book'', s)
                | Inr (None, s') \<Rightarrow> (Json 200 JNull, s')
                | Inr (Some updatedBook, s') \<Rightarrow> (Json 200 (JObj updatedBook), s'))))"

subsection \<open>Notions the statements use\<close>

text \<open>
  The object literal of the add route, \<^verbatim>\<open>{ title, author, ..., publicationDate }\<close>,
  over the properties of an object: the ten names in the order of the source, each with the
  value the object has for it (\<^verbatim>\<open>undefined\<close> when it has none).
\<close>

definition qrObject :: "obj \<Rightarrow> obj" where
  "qrObject body = map (\<lambda>k. (k, js_get body k)) fieldsForQRCode"

text \<open>The guard of the add route lets a body pass when its four required values are truthy.\<close>

definition required_present :: "obj \<Rightarrow> bool" where
  "required_present body =
     (truthy (js_get body ''title'') \<and> truthy (js_get body ''author'')
      \<and> truthy (js_get body ''publisher'') \<and> truthy (js_get body ''isbn''))"

text \<open>
  The invariant of the specification, in its words: the stored \<^verbatim>\<open>qrCode\<close> is the
  encoder's output over the JSON text of exactly the ten fields as the document holds them.
\<close>

definition spec_qrCode_invariant :: "env \<Rightarrow> obj \<Rightarrow> bool" where
  "spec_qrCode_invariant e d =
     (case JSON_stringify (JObj (qrObject d)) of
        None \<Rightarrow> False
      | Some t \<Rightarrow>
          (case toDataURL e t of
             None \<Rightarrow> False
           | Some q \<Rightarrow> js_get d ''qrCode'' = JStr q))"

text \<open>\<open>occurs_in p t\<close>: the text \<open>p\<close> is a contiguous part of the text \<open>t\<close>.\<close>

fun occurs_in :: "string \<Rightarrow> string \<Rightarrow> bool" where
  "occurs_in p [] = (p = [])"
| "occurs_in p (c # t) = (take (length p) (c # t) = p \<or> occurs_in p t)"

text \<open>
  The reading of the specification for the text the add route encodes: each of the ten
  names is written as a property of it, whatever stands for the value of an absent one.
\<close>

definition spec_names_all_fields :: "string \<Rightarrow> bool" where
  "spec_names_all_fields t =
     list_all (\<lambda>k. occurs_in (QuoteJSONString k @ '':'') t) fieldsForQRCode"

text \<open>Whether a list of documents is in the order a sort specification asks for.\<close>

definition ordered_by :: "string \<Rightarrow> bool \<Rightarrow> obj list \<Rightarrow> bool" where
  "ordered_by field ascending ds =
     sorted_wrt (\<lambda>a b. if ascending
                        then bson_key (js_get a field) \<le> bson_key (js_get b field)
                        else bson_key (js_get b field) \<le> bson_key (js_get a field)) ds"

subsection \<open>Sample data\<close>

text \<open>
  An environment for the closed examples. Its encoder puts the header of a data URL before
  the text it is given, so that the text a route encodes can be read off the result; it is
  total and injective. Its cast accepts the 24 hexadecimal digits of an \<^verbatim>\<open>ObjectId\<close>,
  in lower case after the cast. Its model holds the text \<^verbatim>\<open>2020-01-01\<close>, submitted
  for a date, as that date (midnight, UTC), and any other value as it is submitted. Its
  database answers.
\<close>

definition is_hex :: "char \<Rightarrow> bool" where
  "is_hex c = (is_digit c \<or> (CHR ''a'' \<le> c \<and> c \<le> CHR ''f'') \<or> (CHR ''A'' \<le> c \<and> c \<le> CHR ''F''))"

definition lower_hex :: "char \<Rightarrow> char" where
  "lower_hex c =
     (if c = CHR ''A'' then CHR ''a'' else if c = CHR ''B'' then CHR ''b''
      else if c = CHR ''C'' then CHR ''c'' else if c = CHR ''D'' then CHR ''d''
      else if c = CHR ''E'' then CHR ''e'' else if c = CHR ''F'' then CHR ''f'' else c)"

definition hex24 :: "string \<Rightarrow> string option" where
  "hex24 k = (if length k = 24 \<and> list_all is_hex k then Some (map lower_hex k) else None)"

definition demo_convert :: "kind \<Rightarrow> json \<Rightarrow> json" where
  "demo_convert k v =
     (if k = Date \<and> v = JStr ''2020-01-01'' then JDate 1577836800000 else v)"

definition demo_env :: env where
  "demo_env = \<lparr> toDataURL = (\<lambda>t. Some (''data:image/png;base64,'' @ t)),
                castObjectId = hex24,
                convert = demo_convert,
                store_up = True \<rparr>"

definition demo_id :: string where
  "demo_id = ''65f0c1a2b3c4d5e6f7a8b9c0''"

definition demo_now :: nat where
  "demo_now = 1762128000123"

definition demo_body :: obj where
  "demo_body = [(''title'', JStr ''T''), (''author'', JStr ''A''),
                (''publisher'', JStr ''P''), (''isbn'', JStr ''123'')]"

text \<open>
  The text the add route encodes for \<open>demo_body\<close>, and the document it stores for it in
  \<open>demo_env\<close>.
\<close>

definition demo_qrData :: string where
  \<open>demo_qrData = ''{"title":"T","author":"A","publisher":"P","isbn":"123"}''\<close>

definition demo_book :: obj where
  "demo_book = [(''_id'', JStr demo_id), (''title'', JStr ''T''), (''author'', JStr ''A''),
                (''publisher'', JStr ''P''), (''isbn'', JStr ''123''),
                (''qrCode'', JStr (''data:image/png;base64,'' @ demo_qrData)),
                (''addedDate'', JDate demo_now)]"

text \<open>
  The document stored after an edit of \<open>demo_book\<close> that submits
  \<^verbatim>\<open>{ qrCode: "forged" }\<close>.
\<close>

definition demo_book_forged :: obj where
  "demo_book_forged =
     [(''_id'', JStr demo_id), (''title'', JStr ''T''), (''author'', JStr ''A''),
      (''publisher'', JStr ''P''), (''isbn'', JStr ''123''),
      (''qrCode'', JStr ''forged''), (''addedDate'', JDate demo_now)]"

text \<open>
  The document stored after an edit of \<open>demo_book\<close> that submits
  \<^verbatim>\<open>{ addedDate: "2020-01-01" }\<close>.
\<close>

definition demo_book_redated :: obj where
  "demo_book_redated =
     [(''_id'', JStr demo_id), (''title'', JStr ''T''), (''author'', JStr ''A''),
      (''publisher'', JStr ''P''), (''isbn'', JStr ''123''),
      (''qrCode'', JStr (''data:image/png;base64,'' @ demo_qrData)),
      (''addedDate'', JStr ''2020-01-01'')]"

text \<open>
  The text the edit route encodes when \<^verbatim>\<open>{ title: "" }\<close> is submitted for
  \<open>demo_book\<close>, and the document stored after that edit.
\<close>

definition demo_untitled_qrData :: string where
  \<open>demo_untitled_qrData =
     ''{"_id":"65f0c1a2b3c4d5e6f7a8b9c0","title":"","author":"A","publisher":"P","isbn":"123","qrCode":''
     @ QuoteJSONString (''data:image/png;base64,'' @ demo_qrData)
     @ '',"addedDate":"2025-11-03T00:00:00.123Z"}''\<close>

definition demo_book_untitled :: obj where
  "demo_book_untitled =
     [(''_id'', JStr demo_id), (''title'', JStr []), (''author'', JStr ''A''),
      (''publisher'', JStr ''P''), (''isbn'', JStr ''123''),
      (''qrCode'', JStr (''data:image/png;base64,'' @ demo_untitled_qrData)),
      (''addedDate'', JDate demo_now)]"

text \<open>
  A request that carries its publication date as a text, the text the add route encodes for
  it, and the document it stores for it in \<open>demo_env\<close>, whose model holds the date
  of that text.
\<close>

definition demo_body_dated :: obj where
  "demo_body_dated = [(''title'', JStr ''T''), (''author'', JStr ''A''),
                      (''publisher'', JStr ''P''), (''isbn'', JStr ''123''),
                      (''publicationDate'', JStr ''2020-01-01'')]"

definition demo_dated_qrData :: string where
  \<open>demo_dated_qrData =
     ''{"title":"T","author":"A","publisher":"P","isbn":"123","publicationDate":"2020-01-01"}''\<close>

definition demo_book_dated :: obj where
  "demo_book_dated =
     [(''_id'', JStr demo_id), (''title'', JStr ''T''), (''author'', JStr ''A''),
      (''publisher'', JStr ''P''), (''isbn'', JStr ''123''),
      (''publicationDate'', JDate 1577836800000),
      (''qrCode'', JStr (''data:image/png;base64,'' @ demo_dated_qrData)),
      (''addedDate'', JDate demo_now)]"

text \<open>
  An environment whose encoder has a capacity, as a QR code has: it refuses a text of more
  than 2331 characters, and the code it gives for a text is longer than that. Its cast, its
  model and its database are those of \<open>demo_env\<close>.
\<close>

definition demo_pad :: string where
  "demo_pad = replicate 2400 CHR ''A''"

definition capped_env :: env where
  "capped_env = \<lparr> toDataURL = (\<lambda>t. if length t \<le> 2331
                                       then Some (''data:image/png;base64,'' @ t @ demo_pad)
                                       else None),
                  castObjectId = hex24,
                  convert = demo_convert,
                  store_up = True \<rparr>"

text \<open>
  The document the add route stores for \<open>demo_body\<close> in \<open>capped_env\<close>, and
  the text the edit route encodes when \<^verbatim>\<open>{ price: 29.99 }\<close> is submitted for it.
\<close>

definition capped_book :: obj where
  "capped_book = [(''_id'', JStr demo_id), (''title'', JStr ''T''), (''author'', JStr ''A''),
                  (''publisher'', JStr ''P''), (''isbn'', JStr ''123''),
                  (''qrCode'', JStr (''data:image/png;base64,'' @ demo_qrData @ demo_pad)),
                  (''addedDate'', JDate demo_now)]"

definition capped_edit_qrData :: string where
  \<open>capped_edit_qrData =
     ''{"_id":"65f0c1a2b3c4d5e6f7a8b9c0","title":"T","author":"A","publisher":"P","isbn":"123","qrCode":''
     @ QuoteJSONString (''data:image/png;base64,'' @ demo_qrData @ demo_pad)
     @ '',"addedDate":"2025-11-03T00:00:00.123Z","price":29.99}''\<close>

text \<open>
  The text the edit route encodes when \<^verbatim>\<open>{ price: 29.99 }\<close> is submitted for
  \<open>demo_book_forged\<close>, and the document stored after that edit in
  \<open>capped_env\<close>.
\<close>

definition forged_edit_qrData :: string where
  \<open>forged_edit_qrData =
     ''{"_id":"65f0c1a2b3c4d5e6f7a8b9c0","title":"T","author":"A","publisher":"P","isbn":"123","qrCode":"forged","addedDate":"2025-11-03T00:00:00.123Z","price":29.99}''\<close>

definition capped_book_repriced :: obj where
  "capped_book_repriced =
     [(''_id'', JStr demo_id), (''title'', JStr ''T''), (''author'', JStr ''A''),
      (''publisher'', JStr ''P''), (''isbn'', JStr ''123''),
      (''qrCode'', JStr (''data:image/png;base64,'' @ forged_edit_qrData @ demo_pad)),
      (''addedDate'', JDate demo_now), (''price'', JNum ''29.99'')]"

text \<open>Three documents with the titles A, B and C.\<close>

definition book_A :: obj where
  "book_A = [(''_id'', JStr ''65f0c1a2b3c4d5e6f7a8b9c1''), (''title'', JStr ''A'')]"

definition book_B :: obj where
  "book_B = [(''_id'', JStr ''65f0c1a2b3c4d5e6f7a8b9c2''), (''title'', JStr ''B'')]"

definition book_C :: obj where
  "book_C = [(''_id'', JStr ''65f0c1a2b3c4d5e6f7a8b9c3''), (''title'', JStr ''C'')]"

section \<open>Properties\<close>

subsection \<open>Auxiliary facts\<close>

lemma post_add_unfold:
  "post_add e now new_id body s =
     (if \<not> required_present body
      then (Send 400 ''Title, author, publisher, and ISBN are required.'', s)
      else (case JSON_stringify (JObj (qrObject body)) of
              None \<Rightarrow> (Send 500 ''Error adding book'', s)
            | Some qrData \<Rightarrow>
                (case toDataURL e qrData of
                   None \<Rightarrow> (Send 500 ''Error adding book'', s)
                 | Some qrCode \<Rightarrow>
                     (case Book_save e (new_Book e new_id (qrObject body @
                              [(''qrCode'', JStr qrCode), (''addedDate'', JDate now)])) s of
                        Inl err \<Rightarrow> (Send 500 ''Error adding book'', s)
                      | Inr s' \<Rightarrow> (Json 201 (JObj (new_Book e new_id (qrObject body @
                              [(''qrCode'', JStr qrCode), (''addedDate'', JDate now)]))), s')))))"
  unfolding post_add_def required_present_def Let_def
  by (simp add: qrObject_def fieldsForQRCode_def del: JSON_stringify.simps
        cong: option.case_cong sum.case_cong)

lemma js_get_absent: "k \<notin> set (Object_keys ob) \<Longrightarrow> js_get ob k = JUndefined"
  by (simp add: js_get_def Object_keys_def map_of_eq_None_iff [THEN iffD2])

lemma JSON_stringify_obj_defined:
  "JSON_stringify (JObj (filter (\<lambda>p. snd p \<noteq> JUndefined) ps)) = JSON_stringify (JObj ps)"
proof -
  have "concat (map (\<lambda>p. case JSON_stringify (snd p) of None \<Rightarrow> []
                         | Some t \<Rightarrow> [QuoteJSONString (fst p) @ '':'' @ t])
                (filter (\<lambda>p. snd p \<noteq> JUndefined) ps))
        = concat (map (\<lambda>p. case JSON_stringify (snd p) of None \<Rightarrow> []
                         | Some t \<Rightarrow> [QuoteJSONString (fst p) @ '':'' @ t]) ps)"
    by (induction ps) auto
  then show ?thesis by simp
qed

lemma js_get_typed:
  "distinct (map fst ps) \<Longrightarrow>
   js_get (map (\<lambda>p. (fst p, g (fst p) (snd p))) (filter (\<lambda>p. snd p \<noteq> JUndefined) ps)) k
     = (if js_get ps k = JUndefined then JUndefined else g k (js_get ps k))"
proof (induction ps)
  case Nil
  then show ?case by (simp add: js_get_def)
next
  case (Cons p ps)
  show ?case
  proof (cases "fst p = k")
    case True
    with Cons.prems
    have "k \<notin> fst ` set (map (\<lambda>p. (fst p, g (fst p) (snd p))) (filter (\<lambda>p. snd p \<noteq> JUndefined) ps))"
      by force
    then have "map_of (map (\<lambda>p. (fst p, g (fst p) (snd p))) (filter (\<lambda>p. snd p \<noteq> JUndefined) ps)) k
                 = None"
      by (simp only: map_of_eq_None_iff not_False_eq_True)
    with True show ?thesis by (cases p) (simp add: js_get_def)
  next
    case False
    with Cons show ?thesis by (cases p) (simp add: js_get_def)
  qed
qed

lemma js_get_new_Book:
  "distinct (map fst props) \<Longrightarrow> k \<noteq> ''_id'' \<Longrightarrow>
   js_get (new_Book e new_id props) k
     = (if js_get props k = JUndefined then JUndefined else castField e k (js_get props k))"
  using js_get_typed [of props "castField e" k]
  by (simp add: new_Book_def js_get_def)

lemma castField_typed:
  "castField e ''qrCode'' (JStr q) = JStr q"
  "castField e ''addedDate'' (JDate t) = JDate t"
  by (simp_all add: castField_def schema_def)

lemma doc_id_new_Book: "doc_id (new_Book e new_id props) = JStr new_id"
  by (simp add: new_Book_def doc_id_def js_get_def)

lemma post_add_success:
  assumes "required_present body"
    and "JSON_stringify (JObj (qrObject body)) = Some qrData"
    and "toDataURL e qrData = Some qrCode"
    and "store_up e"
    and "JStr new_id \<notin> set (map doc_id s)"
  shows "post_add e now new_id body s =
           (Json 201 (JObj (new_Book e new_id (qrObject body @
                [(''qrCode'', JStr qrCode), (''addedDate'', JDate now)]))),
            s @ [new_Book e new_id (qrObject body @
                [(''qrCode'', JStr qrCode), (''addedDate'', JDate now)])])"
  using assms by (simp add: post_add_unfold Book_save_def doc_id_new_Book)

lemma distinct_added_props:
  "distinct (map fst (qrObject body @ [(''qrCode'', q), (''addedDate'', t)]))"
  by (simp add: qrObject_def fieldsForQRCode_def)

lemma js_get_added_props:
  "js_get (qrObject body @ [(''qrCode'', q), (''addedDate'', t)]) ''addedDate'' = t"
  "js_get (qrObject body @ [(''qrCode'', q), (''addedDate'', t)]) ''qrCode'' = q"
  "k \<in> set fieldsForQRCode \<Longrightarrow>
   js_get (qrObject body @ [(''qrCode'', q), (''addedDate'', t)]) k = js_get body k"
  by (auto simp: qrObject_def fieldsForQRCode_def js_get_def)

lemma js_get_js_set: "js_get (js_set k v ob) f = (if f = k then v else js_get ob f)"
  by (induction ob) (auto simp: js_get_def)

lemma js_get_fold_other:
  "f \<notin> set (Object_keys upd) \<Longrightarrow> js_get (fold (\<lambda>(k, v). js_set k v) upd ob) f = js_get ob f"
  by (induction upd arbitrary: ob) (auto simp: js_get_js_set Object_keys_def)

lemma js_get_fold_member:
  "distinct (map fst upd) \<Longrightarrow> (k, v) \<in> set upd \<Longrightarrow>
   js_get (fold (\<lambda>(k, v). js_set k v) upd ob) k = v"
proof (induction upd arbitrary: ob)
  case Nil
  then show ?case by simp
next
  case (Cons p upd)
  show ?case
  proof (cases "p = (k, v)")
    case True
    with Cons.prems have "k \<notin> set (Object_keys upd)"
      by (auto simp: Object_keys_def)
    with True show ?thesis
      by (simp add: js_get_fold_other js_get_js_set)
  next
    case False
    with Cons show ?thesis by (cases p) auto
  qed
qed

lemma doc_id_fold:
  "\<not> list_ex (\<lambda>p. fst p = ''_id'' \<and> snd p \<noteq> JStr i) upd \<Longrightarrow> doc_id ob = JStr i \<Longrightarrow>
   doc_id (fold (\<lambda>(k, v). js_set k v) upd ob) = JStr i"
  by (induction upd arbitrary: ob) (auto simp: doc_id_def js_get_js_set)

lemma find_replace_first:
  "P d' \<Longrightarrow> find P s = Some d \<Longrightarrow> find P (replace_first P d' s) = Some d'"
  by (induction s) (auto split: if_splits)

lemma find_Some_holds: "find P s = Some d \<Longrightarrow> P d \<and> d \<in> set s"
  by (induction s) (auto split: if_splits)

lemma Book_findById_found:
  "castObjectId e k = Some i \<Longrightarrow> store_up e \<Longrightarrow>
   Book_findById e k s = Inr (find (\<lambda>d. doc_id d = JStr i) s)"
  by (simp add: Book_findById_def Book_findOne_def)

lemma Book_findByIdAndUpdate_found:
  assumes "castObjectId e k = Some i" and "store_up e"
    and "find (\<lambda>d. doc_id d = JStr i) s = Some book"
    and "\<not> list_ex (\<lambda>p. fst p = ''_id'' \<and> snd p \<noteq> JStr i) upd"
  shows "Book_findByIdAndUpdate e k upd s =
           Inr (Some (fold (\<lambda>(k, v). js_set k v) upd book),
                replace_first (\<lambda>d. doc_id d = JStr i) (fold (\<lambda>(k, v). js_set k v) upd book) s)"
  using assms by (simp add: Book_findByIdAndUpdate_def Let_def)

text \<open>An edit that names none of the ten fields goes to the store as it is.\<close>

lemma put_edit_plain:
  assumes "castObjectId e k = Some i" and "store_up e"
    and "find (\<lambda>d. doc_id d = JStr i) s = Some book"
    and "\<not> shouldUpdateQRCode upd"
    and "\<not> list_ex (\<lambda>p. fst p = ''_id'' \<and> snd p \<noteq> JStr i) upd"
  shows "put_edit e k upd s =
           (Json 200 (JObj (fold (\<lambda>(k, v). js_set k v) upd book)),
            replace_first (\<lambda>d. doc_id d = JStr i) (fold (\<lambda>(k, v). js_set k v) upd book) s)"
  using assms
  by (simp add: put_edit_def Book_findById_found Book_findByIdAndUpdate_found)

text \<open>An edit that names one of the ten fields asks the encoder first.\<close>

lemma put_edit_qr:
  assumes "castObjectId e k = Some i" and "store_up e"
    and "find (\<lambda>d. doc_id d = JStr i) s = Some book"
    and "shouldUpdateQRCode upd"
    and "edit_qrData book upd = Some qrData"
    and "toDataURL e qrData = Some qrCode"
    and "\<not> list_ex (\<lambda>p. fst p = ''_id'' \<and> snd p \<noteq> JStr i) upd"
  shows "put_edit e k upd s =
           (Json 200 (JObj (fold (\<lambda>(k, v). js_set k v) (js_set ''qrCode'' (JStr qrCode) upd) book)),
            replace_first (\<lambda>d. doc_id d = JStr i)
              (fold (\<lambda>(k, v). js_set k v) (js_set ''qrCode'' (JStr qrCode) upd) book) s)"
proof -
  have "\<not> list_ex (\<lambda>p. fst p = ''_id'' \<and> snd p \<noteq> JStr i) (js_set ''qrCode'' (JStr qrCode) upd)"
    using assms(7) by (induction upd) (auto split: if_splits)
  with assms show ?thesis
    by (simp add: put_edit_def Book_findById_found Book_findByIdAndUpdate_found)
qed

lemma qrObject_cong:
  "(\<And>k. k \<in> set fieldsForQRCode \<Longrightarrow> js_get a k = js_get b k) \<Longrightarrow> qrObject a = qrObject b"
  by (simp add: qrObject_def)

lemma spec_qrCode_invariant_cong:
  assumes "\<And>k. k \<in> set fieldsForQRCode \<Longrightarrow> js_get a k = js_get b k"
    and "js_get a ''qrCode'' = js_get b ''qrCode''"
  shows "spec_qrCode_invariant e a = spec_qrCode_invariant e b"
  using qrObject_cong [of a b, OF assms(1)] assms(2)
  by (simp add: spec_qrCode_invariant_def del: JSON_stringify.simps cong: option.case_cong)

lemma not_should_keys:
  "\<not> shouldUpdateQRCode upd \<Longrightarrow> k \<in> set fieldsForQRCode \<Longrightarrow> k \<notin> set (Object_keys upd)"
  by (auto simp: shouldUpdateQRCode_def list_ex_iff)

lemma new_Book_qrCode:
  "js_get (new_Book e new_id (qrObject body @ [(''qrCode'', JStr qrCode), (''addedDate'', JDate now)]))
     ''qrCode'' = JStr qrCode"
  by (simp add: js_get_new_Book [OF distinct_added_props] js_get_added_props castField_typed)

lemma post_add_created:
  assumes "post_add e now new_id body s = (Json 201 (JObj book), s')"
  shows "s' = s @ [book]
         \<and> (\<exists>qrData qrCode. JSON_stringify (JObj (qrObject body)) = Some qrData
               \<and> toDataURL e qrData = Some qrCode \<and> js_get book ''qrCode'' = JStr qrCode)"
proof -
  from assms obtain qrData qrCode where
    q: "JSON_stringify (JObj (qrObject body)) = Some qrData" "toDataURL e qrData = Some qrCode"
    and b: "book = new_Book e new_id (qrObject body @ [(''qrCode'', JStr qrCode), (''addedDate'', JDate now)])"
    and s: "Book_save e book s = Inr s'"
    by (auto simp: post_add_unfold split: if_splits option.splits sum.splits)
  from s have "s' = s @ [book]"
    by (auto simp: Book_save_def split: if_splits)
  with q b show ?thesis
    by (auto simp: new_Book_qrCode)
qed

lemma put_edit_plain_result:
  assumes "put_edit e k upd s = (Json 200 (JObj book'), s')"
    and "castObjectId e k = Some i"
    and "find (\<lambda>d. doc_id d = JStr i) s = Some book"
    and "\<not> shouldUpdateQRCode upd"
  shows "book' = fold (\<lambda>(k, v). js_set k v) upd book"
  using assms
  by (auto simp: put_edit_def Book_findById_def Book_findOne_def Book_findByIdAndUpdate_def Let_def
        split: if_splits)

lemma put_edit_plain_stored:
  assumes "put_edit e k upd s = (Json 200 (JObj book'), s')"
    and "castObjectId e k = Some i"
    and "find (\<lambda>d. doc_id d = JStr i) s = Some book"
    and "\<not> shouldUpdateQRCode upd"
  shows "s' = replace_first (\<lambda>d. doc_id d = JStr i) book' s"
  using assms
  by (auto simp: put_edit_def Book_findById_def Book_findOne_def Book_findByIdAndUpdate_def Let_def
        split: if_splits)

lemma doc_id_found: "find (\<lambda>d. doc_id d = JStr i) s = Some book \<Longrightarrow> doc_id book = JStr i"
  by (drule find_Some_holds) simp

lemma find_after_update:
  assumes "find (\<lambda>d. doc_id d = JStr i) s = Some book"
    and "\<not> list_ex (\<lambda>p. fst p = ''_id'' \<and> snd p \<noteq> JStr i) upd"
  shows "find (\<lambda>d. doc_id d = JStr i)
           (replace_first (\<lambda>d. doc_id d = JStr i) (fold (\<lambda>(k, v). js_set k v) upd book) s)
         = Some (fold (\<lambda>(k, v). js_set k v) upd book)"
  using doc_id_fold [OF assms(2) doc_id_found [OF assms(1)]] assms(1)
  by (rule find_replace_first)

lemma Book_find_sort_up:
  "store_up e \<Longrightarrow>
   Book_find_sort e field direction s =
     Inr (if direction = 1 then sort_key (\<lambda>d. bson_key (js_get d field)) s
          else rev (sort_key (\<lambda>d. bson_key (js_get d field)) (rev s)))"
  by (simp add: Book_find_sort_def)

lemma ordered_by_ascending: "ordered_by field True (sort_key (\<lambda>d. bson_key (js_get d field)) s)"
  using sorted_sort_key [of "\<lambda>d. bson_key (js_get d field)" s]
  by (simp add: ordered_by_def sorted_map)

lemma ordered_by_descending:
  "ordered_by field False (rev (sort_key (\<lambda>d. bson_key (js_get d field)) s))"
  using sorted_sort_key [of "\<lambda>d. bson_key (js_get d field)" s]
  by (simp add: ordered_by_def sorted_map sorted_wrt_rev)

lemma map_JObj_eq: "map JObj xs = map JObj ys \<Longrightarrow> xs = ys"
  by (simp add: inj_map_eq_map inj_def)

lemma doc_id_in_ids: "find (\<lambda>d. doc_id d = JStr i) s = None \<longleftrightarrow> JStr i \<notin> set (map doc_id s)"
  by (induction s) auto

lemma distinct_ids_remove1:
  assumes "distinct (map doc_id s)" and "book \<in> set s"
  shows "doc_id book \<notin> set (map doc_id (remove1 book s))"
  using assms
proof (induction s)
  case Nil
  then show ?case by simp
next
  case (Cons a s)
  show ?case
  proof (cases "a = book")
    case True
    with Cons.prems show ?thesis by simp
  next
    case False
    with Cons.prems have "book \<in> set s" by simp
    then have "doc_id book \<in> doc_id ` set s" by (rule imageI)
    with Cons.prems have "doc_id book \<noteq> doc_id a" by auto
    with False Cons.IH Cons.prems \<open>book \<in> set s\<close> show ?thesis by simp
  qed
qed

lemma distinct_map_remove1: "distinct (map f xs) \<Longrightarrow> distinct (map f (remove1 x xs))"
proof (induction xs)
  case Nil
  then show ?case by simp
next
  case (Cons a xs)
  have "set (remove1 x xs) \<subseteq> set xs"
    by (rule set_remove1_subset)
  with Cons show ?case by auto
qed

lemma ids_replace_first:
  "doc_id d' = JStr i \<Longrightarrow>
   map doc_id (replace_first (\<lambda>d. doc_id d = JStr i) d' s) = map doc_id s"
  by (induction s) auto

lemma post_add_keeps_ids_distinct:
  assumes "distinct (map doc_id s)"
  shows "distinct (map doc_id (snd (post_add e now new_id body s)))"
    using assms
    by (auto simp: post_add_unfold Book_save_def doc_id_new_Book split: option.splits)

lemma delete_keeps_ids_distinct:
  assumes "distinct (map doc_id s)"
  shows "distinct (map doc_id (snd (delete_delete e key s)))"
proof (cases "Book_findByIdAndDelete e key s")
  case (Inl err)
  with assms show ?thesis by (simp add: delete_delete_def)
next
  case (Inr r)
  then have "snd r = s \<or> (\<exists>d. snd r = remove1 d s)"
    by (auto simp: Book_findByIdAndDelete_def split: option.splits if_splits)
  with assms have "distinct (map doc_id (snd r))"
    by (auto simp: distinct_map_remove1)
  with Inr show ?thesis
    by (cases r) (simp add: delete_delete_def split: option.splits)
qed

lemma Book_findByIdAndUpdate_keeps_ids:
  assumes "Book_findByIdAndUpdate e key u s = Inr (r, s')"
  shows "map doc_id s' = map doc_id s"
proof -
  from assms obtain i where c: "castObjectId e key = Some i"
    by (auto simp: Book_findByIdAndUpdate_def split: option.splits)
  show ?thesis
  proof (cases "find (\<lambda>d. doc_id d = JStr i) s")
    case None
    with assms c show ?thesis
      by (simp add: Book_findByIdAndUpdate_def split: if_splits)
  next
    case (Some d)
    with assms c have n: "\<not> list_ex (\<lambda>p. fst p = ''_id'' \<and> snd p \<noteq> JStr i) u"
      and s': "s' = replace_first (\<lambda>x. doc_id x = JStr i) (fold (\<lambda>(k, v). js_set k v) u d) s"
      by (simp_all add: Book_findByIdAndUpdate_def Let_def split: if_splits)
    from doc_id_fold [OF n doc_id_found [OF Some]] show ?thesis
      unfolding s' by (rule ids_replace_first)
  qed
qed

lemma put_edit_keeps_ids: "map doc_id (snd (put_edit e key upd s)) = map doc_id s"
proof -
  have step: "map doc_id (snd (case Book_findByIdAndUpdate e key u s of
                 Inl err \<Rightarrow> (Send 500 ''Error editing book'', s)
               | Inr (None, s') \<Rightarrow> (Json 200 JNull, s')
               | Inr (Some updatedBook, s') \<Rightarrow> (Json 200 (JObj updatedBook), s'))) = map doc_id s"
    for u
  proof (cases "Book_findByIdAndUpdate e key u s")
    case (Inl err)
    then show ?thesis by simp
  next
    case (Inr r)
    obtain b s' where r: "r = (b, s')" by (cases r)
    with Inr have "map doc_id s' = map doc_id s"
      by (simp add: Book_findByIdAndUpdate_keeps_ids)
    with Inr r show ?thesis by (cases b) simp_all
  qed
  show ?thesis
  proof (cases "Book_findById e key s")
    case (Inl err)
    then show ?thesis by (simp add: put_edit_def)
  next
    case (Inr found)
    show ?thesis
    proof (cases found)
      case None
      with Inr show ?thesis by (simp add: put_edit_def)
    next
      case (Some book)
      with Inr step show ?thesis
        by (simp add: put_edit_def split: option.splits)
    qed
  qed
qed

text \<open>
  The identifiers of a collection stay distinct under the routes: the add route does not
  store a document whose identifier is taken, the delete route only removes, and the edit
  route does not change an identifier.
\<close>

lemma routes_keep_ids_distinct:
  assumes "distinct (map doc_id s)"
  shows "distinct (map doc_id (snd (post_add e now new_id body s)))"
    and "distinct (map doc_id (snd (delete_delete e key s)))"
    and "distinct (map doc_id (snd (put_edit e key upd s)))"
  using assms
  by (simp_all add: post_add_keeps_ids_distinct delete_keeps_ids_distinct put_edit_keeps_ids)

text \<open>The text of a spread holds the fields of the record and the submitted ones.\<close>

lemma js_set_new: "k \<notin> set (map fst ob) \<Longrightarrow> js_set k v ob = ob @ [(k, v)]"
  by (induction ob) auto

lemma fold_js_set_object:
  "distinct (map fst (acc @ a)) \<Longrightarrow> fold (\<lambda>(k, v). js_set k v) a acc = acc @ a"
proof (induction a arbitrary: acc)
  case Nil
  then show ?case by simp
next
  case (Cons p a)
  obtain k v where p: "p = (k, v)" by (cases p)
  from Cons.prems p have "k \<notin> set (map fst acc)"
    by auto
  then have "js_set k v acc = acc @ [(k, v)]"
    by (rule js_set_new)
  moreover from Cons.prems p have "distinct (map fst ((acc @ [(k, v)]) @ a))"
    by simp
  then have "fold (\<lambda>(k, v). js_set k v) a (acc @ [(k, v)]) = (acc @ [(k, v)]) @ a"
    by (rule Cons.IH)
  ultimately show ?case
    using p by simp
qed

lemma keys_js_set: "fst ` set (js_set k v ob) = insert k (fst ` set ob)"
proof (induction ob)
  case Nil
  show ?case by simp
next
  case (Cons p ob)
  obtain k' v' where p: "p = (k', v')" by (cases p)
  show ?case
  proof (cases "k' = k")
    case True
    with p show ?thesis by simp
  next
    case False
    with p Cons.IH show ?thesis by (simp add: insert_commute)
  qed
qed

lemma distinct_js_set: "distinct (map fst ob) \<Longrightarrow> distinct (map fst (js_set k v ob))"
proof (induction ob)
  case Nil
  show ?case by simp
next
  case (Cons p ob)
  obtain k' v' where p: "p = (k', v')" by (cases p)
  show ?case
  proof (cases "k' = k")
    case True
    with p Cons.prems show ?thesis by simp
  next
    case False
    from Cons have "distinct (map fst (js_set k v ob))" by simp
    moreover from Cons.prems p False have "k' \<notin> set (map fst (js_set k v ob))"
      by (simp add: keys_js_set)
    ultimately show ?thesis using p False by simp
  qed
qed

lemma js_get_own_property_order:
  assumes "distinct (map fst ob)"
  shows "js_get (own_property_order ob) k = js_get ob k"
proof -
  have m: "mset (own_property_order ob) = mset ob"
    by (simp add: own_property_order_def)
  then have "mset (map fst (own_property_order ob)) = mset (map fst ob)"
    by (metis mset_map)
  then have "distinct (map fst (own_property_order ob)) = distinct (map fst ob)"
    by (rule mset_eq_imp_distinct_iff)
  with assms have "distinct (map fst (own_property_order ob))"
    by (simp only:)
  moreover from m have "set (own_property_order ob) = set ob"
    by (rule mset_eq_setD)
  ultimately have "map_of (own_property_order ob) = map_of ob"
    using assms by (simp add: map_of_inject_set)
  then show ?thesis
    by (simp add: js_get_def)
qed

lemma js_get_spread:
  assumes "distinct (map fst book)"
  shows "js_get (spread (toObject book) [(k, v)]) f = (if f = k then v else js_get book f)"
proof -
  from assms have "fold (\<lambda>(k, v). js_set k v) book [] = book"
    using fold_js_set_object [of "[]" book] by simp
  moreover from assms have "distinct (map fst (js_set k v book))"
    by (rule distinct_js_set)
  ultimately show ?thesis
    by (simp add: spread_def toObject_def js_get_own_property_order js_get_js_set)
qed

lemma edit_qrData_Some: "\<exists>qrData. edit_qrData book upd = Some qrData"
  by (simp add: edit_qrData_def)

lemma put_edit_refused:
  assumes "castObjectId e k = Some i"
    and "find (\<lambda>d. doc_id d = JStr i) s = Some book"
    and "shouldUpdateQRCode upd"
    and "edit_qrData book upd = Some qrData"
    and "toDataURL e qrData = None \<or> \<not> store_up e"
  shows "put_edit e k upd s = (Send 500 ''Error editing book'', s)"
  using assms
  by (auto simp: put_edit_def Book_findById_def Book_findOne_def)

lemma distinct_fold_js_set:
  "distinct (map fst ob) \<Longrightarrow> distinct (map fst (fold (\<lambda>(k, v). js_set k v) upd ob))"
  by (induction upd arbitrary: ob) (auto simp: distinct_js_set)

lemma distinct_new_Book:
  "distinct (map fst (new_Book e new_id (qrObject body @ [(''qrCode'', q), (''addedDate'', t)])))"
proof -
  let ?props = "qrObject body @ [(''qrCode'', q), (''addedDate'', t)]"
  have keys: "map fst (new_Book e new_id ?props)
                = ''_id'' # map fst (filter (\<lambda>p. snd p \<noteq> JUndefined) ?props)"
    by (simp add: new_Book_def comp_def)
  have "distinct (map fst (filter (\<lambda>p. snd p \<noteq> JUndefined) ?props))"
    using distinct_added_props by (rule distinct_map_filter)
  moreover have "''_id'' \<notin> set (map fst ?props)"
    by (simp add: qrObject_def fieldsForQRCode_def)
  then have "''_id'' \<notin> set (map fst (filter (\<lambda>p. snd p \<noteq> JUndefined) ?props))"
    by auto
  ultimately show ?thesis
    by (simp only: keys distinct.simps) simp
qed

lemma list_all_replace_first:
  "list_all Q s \<Longrightarrow> Q d' \<Longrightarrow> list_all Q (replace_first P d' s)"
  by (induction s) auto

lemma post_add_keeps_objects:
  assumes "list_all (\<lambda>d. distinct (map fst d)) s"
  shows "list_all (\<lambda>d. distinct (map fst d)) (snd (post_add e now new_id body s))"
  using assms
  by (auto simp: post_add_unfold Book_save_def distinct_new_Book split: option.splits
           simp del: JSON_stringify.simps)

lemma delete_keeps_objects:
  assumes "list_all (\<lambda>d. distinct (map fst d)) s"
  shows "list_all (\<lambda>d. distinct (map fst d)) (snd (delete_delete e key s))"
proof (cases "Book_findByIdAndDelete e key s")
  case (Inl err)
  with assms show ?thesis by (simp add: delete_delete_def)
next
  case (Inr r)
  then have "snd r = s \<or> (\<exists>d. snd r = remove1 d s)"
    by (auto simp: Book_findByIdAndDelete_def split: option.splits if_splits)
  moreover have "set (remove1 d s) \<subseteq> set s" for d
    by (rule set_remove1_subset)
  ultimately have "list_all (\<lambda>d. distinct (map fst d)) (snd r)"
    using assms by (auto simp: list_all_iff)
  with Inr show ?thesis
    by (cases r) (simp add: delete_delete_def split: option.splits)
qed

lemma Book_findByIdAndUpdate_keeps_objects:
  assumes "Book_findByIdAndUpdate e key u s = Inr (r, s')"
    and "list_all (\<lambda>d. distinct (map fst d)) s"
  shows "list_all (\<lambda>d. distinct (map fst d)) s'"
proof -
  from assms(1) obtain i where c: "castObjectId e key = Some i"
    by (auto simp: Book_findByIdAndUpdate_def split: option.splits)
  show ?thesis
  proof (cases "find (\<lambda>d. doc_id d = JStr i) s")
    case None
    with assms c show ?thesis
      by (simp add: Book_findByIdAndUpdate_def split: if_splits)
  next
    case (Some d)
    with assms(1) c
    have s': "s' = replace_first (\<lambda>x. doc_id x = JStr i) (fold (\<lambda>(k, v). js_set k v) u d) s"
      by (simp_all add: Book_findByIdAndUpdate_def Let_def split: if_splits)
    from Some have "d \<in> set s"
      by (simp add: find_Some_holds)
    with assms(2) have "distinct (map fst d)"
      by (simp add: list_all_iff)
    then have "distinct (map fst (fold (\<lambda>(k, v). js_set k v) u d))"
      by (rule distinct_fold_js_set)
    with assms(2) show ?thesis
      unfolding s' by (rule list_all_replace_first)
  qed
qed

lemma put_edit_keeps_objects:
  assumes "list_all (\<lambda>d. distinct (map fst d)) s"
  shows "list_all (\<lambda>d. distinct (map fst d)) (snd (put_edit e key upd s))"
proof -
  have step: "list_all (\<lambda>d. distinct (map fst d))
                (snd (case Book_findByIdAndUpdate e key u s of
                 Inl err \<Rightarrow> (Send 500 ''Error editing book'', s)
               | Inr (None, s') \<Rightarrow> (Json 200 JNull, s')
               | Inr (Some updatedBook, s') \<Rightarrow> (Json 200 (JObj updatedBook), s')))"
    for u
  proof (cases "Book_findByIdAndUpdate e key u s")
    case (Inl err)
    with assms show ?thesis by simp
  next
    case (Inr r)
    obtain b s' where r: "r = (b, s')" by (cases r)
    with Inr assms have "list_all (\<lambda>d. distinct (map fst d)) s'"
      by (simp add: Book_findByIdAndUpdate_keeps_objects)
    with Inr r show ?thesis by (cases b) simp_all
  qed
  show ?thesis
  proof (cases "Book_findById e key s")
    case (Inl err)
    with assms show ?thesis by (simp add: put_edit_def)
  next
    case (Inr found)
    show ?thesis
    proof (cases found)
      case None
      with Inr assms show ?thesis by (simp add: put_edit_def)
    next
      case (Some book)
      with Inr step assms show ?thesis
        by (simp add: put_edit_def split: option.splits)
    qed
  qed
qed

text \<open>
  The records of a collection stay objects (no field name twice) under the routes.
\<close>

lemma routes_keep_objects:
  assumes "list_all (\<lambda>d. distinct (map fst d)) s"
  shows "list_all (\<lambda>d. distinct (map fst d)) (snd (post_add e now new_id body s))"
    and "list_all (\<lambda>d. distinct (map fst d)) (snd (delete_delete e key s))"
    and "list_all (\<lambda>d. distinct (map fst d)) (snd (put_edit e key upd s))"
  using assms
  by (simp_all add: post_add_keeps_objects delete_keeps_objects put_edit_keeps_objects)

lemma length_QuoteJSONString: "length s \<le> length (QuoteJSONString s)"
proof -
  have "length s \<le> length (concat (map QuoteJSONChar s))"
  proof (induction s)
    case Nil
    show ?case by simp
  next
    case (Cons c s)
    have "1 \<le> length (QuoteJSONChar c)"
      by (simp add: QuoteJSONChar_def)
    with Cons show ?case by simp
  qed
  then show ?thesis
    by (simp add: QuoteJSONString_def)
qed

lemma replicate_2: "replicate 2 x = [x, x]"
  by (simp add: numeral_2_eq_2)

lemma new_Book_invariant:
  assumes "JSON_stringify (JObj (qrObject body)) = Some qrData"
    and "toDataURL e qrData = Some qrCode"
    and "book = new_Book e new_id (qrObject body @ [(''qrCode'', JStr qrCode), (''addedDate'', JDate now)])"
    and "qrObject book = qrObject body"
  shows "spec_qrCode_invariant e book"
  using assms by (simp add: spec_qrCode_invariant_def new_Book_qrCode)

lemma post_add_created_invariant:
  assumes "post_add e now new_id body s = (Json 201 (JObj book), s')"
    and "qrObject book = qrObject body"
  shows "spec_qrCode_invariant e book"
proof -
  from assms(1) obtain qrData qrCode where
    "JSON_stringify (JObj (qrObject body)) = Some qrData" "toDataURL e qrData = Some qrCode"
    "book = new_Book e new_id (qrObject body @ [(''qrCode'', JStr qrCode), (''addedDate'', JDate now)])"
    by (auto simp: post_add_unfold split: if_splits option.splits sum.splits)
  with assms(2) show ?thesis
    by (rule new_Book_invariant [rotated 3])
qed

subsection \<open>The sample data, evaluated\<close>

lemma demo_qrData_eq: "JSON_stringify (JObj (qrObject demo_body)) = Some demo_qrData"
  by (simp add: qrObject_def fieldsForQRCode_def demo_body_def demo_qrData_def js_get_def
        QuoteJSONString_def QuoteJSONChar_def)

lemma demo_required: "required_present demo_body"
  by (simp add: required_present_def demo_body_def js_get_def)

lemma demo_new_Book:
  "new_Book demo_env demo_id (qrObject demo_body @
      [(''qrCode'', JStr (''data:image/png;base64,'' @ demo_qrData)),
       (''addedDate'', JDate demo_now)]) = demo_book"
  by (simp add: new_Book_def qrObject_def fieldsForQRCode_def demo_body_def js_get_def
        demo_book_def castField_def schema_def)

lemma demo_add:
  "post_add demo_env demo_now demo_id demo_body [] = (Json 201 (JObj demo_book), [demo_book])"
proof -
  have enc: "toDataURL demo_env demo_qrData = Some (''data:image/png;base64,'' @ demo_qrData)"
    by (simp add: demo_env_def)
  have up: "store_up demo_env"
    by (simp add: demo_env_def)
  have fresh: "JStr demo_id \<notin> set (map doc_id [])"
    by simp
  from post_add_success [OF demo_required demo_qrData_eq enc up fresh, of demo_now]
  show ?thesis by (simp only: demo_new_Book append_Nil)
qed

lemma demo_cast: "castObjectId demo_env demo_id = Some demo_id"
  by (simp add: demo_env_def hex24_def is_hex_def is_digit_def lower_hex_def demo_id_def)

lemma demo_up: "store_up demo_env"
  by (simp add: demo_env_def)

lemma demo_find: "find (\<lambda>d. doc_id d = JStr demo_id) [demo_book] = Some demo_book"
  by (simp add: demo_book_def doc_id_def js_get_def)

lemma demo_civil_from_days: "civil_from_days 20395 = (2025, 11, 3)"
  unfolding civil_from_days_def Let_def by simp

lemma demo_toISOString: "toISOString demo_now = ''2025-11-03T00:00:00.123Z''"
  by (simp add: toISOString_def demo_now_def demo_civil_from_days pad0_def dec_digits.simps)

lemma demo_edit_forged:
  "put_edit demo_env demo_id [(''qrCode'', JStr ''forged'')] [demo_book]
     = (Json 200 (JObj demo_book_forged), [demo_book_forged])"
proof -
  have should: "\<not> shouldUpdateQRCode [(''qrCode'', JStr ''forged'')]"
    by (simp add: shouldUpdateQRCode_def Object_keys_def fieldsForQRCode_def)
  have noid: "\<not> list_ex (\<lambda>p. fst p = ''_id'' \<and> snd p \<noteq> JStr demo_id) [(''qrCode'', JStr ''forged'')]"
    by simp
  have doc: "fold (\<lambda>(k, v). js_set k v) [(''qrCode'', JStr ''forged'')] demo_book
               = demo_book_forged"
    by (simp add: demo_book_def demo_book_forged_def)
  have rep: "replace_first (\<lambda>d. doc_id d = JStr demo_id) demo_book_forged [demo_book]
               = [demo_book_forged]"
    by (simp add: demo_book_def doc_id_def js_get_def)
  from put_edit_plain [OF demo_cast demo_up demo_find should noid]
  show ?thesis by (simp only: doc rep)
qed

lemma demo_edit_redated:
  "put_edit demo_env demo_id [(''addedDate'', JStr ''2020-01-01'')] [demo_book]
     = (Json 200 (JObj demo_book_redated), [demo_book_redated])"
proof -
  have should: "\<not> shouldUpdateQRCode [(''addedDate'', JStr ''2020-01-01'')]"
    by (simp add: shouldUpdateQRCode_def Object_keys_def fieldsForQRCode_def)
  have noid: "\<not> list_ex (\<lambda>p. fst p = ''_id'' \<and> snd p \<noteq> JStr demo_id)
                  [(''addedDate'', JStr ''2020-01-01'')]"
    by simp
  have doc: "fold (\<lambda>(k, v). js_set k v) [(''addedDate'', JStr ''2020-01-01'')] demo_book
               = demo_book_redated"
    by (simp add: demo_book_def demo_book_redated_def)
  have rep: "replace_first (\<lambda>d. doc_id d = JStr demo_id) demo_book_redated [demo_book]
               = [demo_book_redated]"
    by (simp add: demo_book_def doc_id_def js_get_def)
  from put_edit_plain [OF demo_cast demo_up demo_find should noid]
  show ?thesis by (simp only: doc rep)
qed

lemma demo_untitled_qrData_eq:
  "edit_qrData demo_book [(''title'', JStr [])] = Some demo_untitled_qrData"
proof -
  have "spread (toObject demo_book) [(''title'', JStr [])]
          = js_set ''title'' (JStr []) demo_book"
    by (simp add: toObject_def spread_def own_property_order_def demo_book_def
          is_array_index_def is_digit_def)
  then show ?thesis
    using demo_toISOString
    by (simp add: edit_qrData_def demo_book_def demo_id_def demo_untitled_qrData_def
          QuoteJSONString_def QuoteJSONChar_def)
qed

lemma demo_forged_fold:
  "fold (\<lambda>(k, v). js_set k v) [(''qrCode'', JStr ''forged'')] demo_book = demo_book_forged"
  by (simp add: demo_book_def demo_book_forged_def)

lemma demo_untitled_set:
  "js_set ''qrCode'' (JStr (''data:image/png;base64,'' @ demo_untitled_qrData))
     (js_set ''title'' (JStr []) demo_book) = demo_book_untitled"
  by (simp add: demo_book_def demo_book_untitled_def)

lemma demo_replace:
  "replace_first (\<lambda>d. doc_id d = JStr demo_id) d' [demo_book] = [d']"
  by (simp add: demo_book_def doc_id_def js_get_def)

lemma demo_sort_asc:
  "get_sort demo_env (JStr ''title'') (JStr ''asc'') [book_B, book_A, book_C]
     = (Json 200 (JArr (map JObj [book_A, book_B, book_C])), [book_B, book_A, book_C])"
  by (simp add: get_sort_def Book_find_sort_def demo_env_def book_A_def book_B_def book_C_def
        js_get_def)

lemma demo_sort_desc:
  "get_sort demo_env (JStr ''title'') (JStr ''desc'') [book_B, book_A, book_C]
     = (Json 200 (JArr (map JObj [book_C, book_B, book_A])), [book_B, book_A, book_C])"
  by (simp add: get_sort_def Book_find_sort_def demo_env_def book_A_def book_B_def book_C_def
        js_get_def)

lemma demo_digits: "digits_only ''123''" "\<not> digits_only demo_id" "\<not> digits_only ''abc''"
  by (simp_all add: digits_only_def is_digit_def demo_id_def)

lemma demo_cast_abc: "castObjectId demo_env ''abc'' = None"
  by (simp add: demo_env_def hex24_def)

lemma demo_dated_required: "required_present demo_body_dated"
  by (simp add: required_present_def demo_body_dated_def js_get_def)

lemma demo_dated_qrData_eq: "JSON_stringify (JObj (qrObject demo_body_dated)) = Some demo_dated_qrData"
  by (simp add: qrObject_def fieldsForQRCode_def demo_body_dated_def demo_dated_qrData_def
        js_get_def QuoteJSONString_def QuoteJSONChar_def)

lemma demo_dated_new_Book:
  "new_Book demo_env demo_id (qrObject demo_body_dated @
      [(''qrCode'', JStr (''data:image/png;base64,'' @ demo_dated_qrData)),
       (''addedDate'', JDate demo_now)]) = demo_book_dated"
  by (simp add: new_Book_def qrObject_def fieldsForQRCode_def demo_body_dated_def js_get_def
        demo_book_dated_def castField_def schema_def demo_env_def demo_convert_def)

lemma demo_add_dated:
  "post_add demo_env demo_now demo_id demo_body_dated []
     = (Json 201 (JObj demo_book_dated), [demo_book_dated])"
proof -
  have enc: "toDataURL demo_env demo_dated_qrData
               = Some (''data:image/png;base64,'' @ demo_dated_qrData)"
    by (simp add: demo_env_def)
  have fresh: "JStr demo_id \<notin> set (map doc_id [])"
    by simp
  from post_add_success [OF demo_dated_required demo_dated_qrData_eq enc demo_up fresh, of demo_now]
  show ?thesis by (simp only: demo_dated_new_Book append_Nil)
qed

lemma demo_civil_2020: "civil_from_days 18262 = (2020, 1, 1)"
  unfolding civil_from_days_def Let_def by simp

lemma demo_toISOString_2020: "toISOString 1577836800000 = ''2020-01-01T00:00:00.000Z''"
  by (simp add: toISOString_def demo_civil_2020 pad0_def dec_digits.simps replicate_2)

lemma demo_dated_not_invariant: "\<not> spec_qrCode_invariant demo_env demo_book_dated"
proof -
  have "qrObject demo_book_dated
          = [(''title'', JStr ''T''), (''author'', JStr ''A''), (''publisher'', JStr ''P''),
             (''exam'', JUndefined), (''subject'', JUndefined), (''description'', JUndefined),
             (''price'', JUndefined), (''language'', JUndefined), (''isbn'', JStr ''123''),
             (''publicationDate'', JDate 1577836800000)]"
    by (simp add: qrObject_def fieldsForQRCode_def demo_book_dated_def js_get_def)
  then show ?thesis
    using demo_toISOString_2020
    by (simp add: spec_qrCode_invariant_def demo_env_def QuoteJSONString_def QuoteJSONChar_def)
       (simp add: demo_book_dated_def js_get_def demo_dated_qrData_def)
qed

lemma capped_cast: "castObjectId capped_env demo_id = Some demo_id"
  by (simp add: capped_env_def hex24_def is_hex_def is_digit_def lower_hex_def demo_id_def)

lemma capped_up: "store_up capped_env"
  by (simp add: capped_env_def)

lemma capped_find: "find (\<lambda>d. doc_id d = JStr demo_id) [capped_book] = Some capped_book"
  by (simp add: capped_book_def doc_id_def js_get_def)

lemma forged_find:
  "find (\<lambda>d. doc_id d = JStr demo_id) [demo_book_forged] = Some demo_book_forged"
  by (simp add: demo_book_forged_def doc_id_def js_get_def)

lemma capped_new_Book:
  "new_Book capped_env demo_id (qrObject demo_body @
      [(''qrCode'', JStr (''data:image/png;base64,'' @ demo_qrData @ demo_pad)),
       (''addedDate'', JDate demo_now)]) = capped_book"
  by (simp add: new_Book_def qrObject_def fieldsForQRCode_def demo_body_def js_get_def
        capped_book_def castField_def schema_def)

lemma capped_add:
  "post_add capped_env demo_now demo_id demo_body [] = (Json 201 (JObj capped_book), [capped_book])"
proof -
  have enc: "toDataURL capped_env demo_qrData
               = Some (''data:image/png;base64,'' @ demo_qrData @ demo_pad)"
    by (simp add: capped_env_def demo_qrData_def)
  have fresh: "JStr demo_id \<notin> set (map doc_id [])"
    by simp
  from post_add_success [OF demo_required demo_qrData_eq enc capped_up fresh, of demo_now]
  show ?thesis by (simp only: capped_new_Book append_Nil)
qed

lemma capped_edit_qrData_eq:
  "edit_qrData capped_book [(''price'', JNum ''29.99'')] = Some capped_edit_qrData"
proof -
  have "spread (toObject capped_book) [(''price'', JNum ''29.99'')]
          = capped_book @ [(''price'', JNum ''29.99'')]"
    by (simp add: toObject_def spread_def own_property_order_def capped_book_def
          is_array_index_def is_digit_def)
  moreover note demo_toISOString
  ultimately show ?thesis
    by (simp add: edit_qrData_def capped_book_def demo_id_def capped_edit_qrData_def
          QuoteJSONString_def QuoteJSONChar_def)
qed

lemma capped_edit_refused: "toDataURL capped_env capped_edit_qrData = None"
proof -
  have "length demo_pad \<le> length (QuoteJSONString (''data:image/png;base64,'' @ demo_qrData @ demo_pad))"
    using length_QuoteJSONString [of "''data:image/png;base64,'' @ demo_qrData @ demo_pad"]
    by simp
  then have "2400 \<le> length capped_edit_qrData"
    by (simp add: capped_edit_qrData_def demo_pad_def)
  then show ?thesis
    by (simp add: capped_env_def)
qed

lemma forged_edit_qrData_eq:
  "edit_qrData demo_book_forged [(''price'', JNum ''29.99'')] = Some forged_edit_qrData"
proof -
  have "spread (toObject demo_book_forged) [(''price'', JNum ''29.99'')]
          = demo_book_forged @ [(''price'', JNum ''29.99'')]"
    by (simp add: toObject_def spread_def own_property_order_def demo_book_forged_def
          is_array_index_def is_digit_def)
  moreover note demo_toISOString
  ultimately show ?thesis
    by (simp add: edit_qrData_def demo_book_forged_def demo_id_def forged_edit_qrData_def
          QuoteJSONString_def QuoteJSONChar_def)
qed

lemma forged_edit_accepted:
  "toDataURL capped_env forged_edit_qrData
     = Some (''data:image/png;base64,'' @ forged_edit_qrData @ demo_pad)"
  by (simp add: capped_env_def forged_edit_qrData_def)

lemma capped_edit_forged:
  "put_edit capped_env demo_id [(''qrCode'', JStr ''forged'')] [capped_book]
     = (Json 200 (JObj demo_book_forged), [demo_book_forged])"
proof -
  have should: "\<not> shouldUpdateQRCode [(''qrCode'', JStr ''forged'')]"
    by (simp add: shouldUpdateQRCode_def Object_keys_def fieldsForQRCode_def)
  have noid: "\<not> list_ex (\<lambda>p. fst p = ''_id'' \<and> snd p \<noteq> JStr demo_id) [(''qrCode'', JStr ''forged'')]"
    by simp
  have doc: "fold (\<lambda>(k, v). js_set k v) [(''qrCode'', JStr ''forged'')] capped_book
               = demo_book_forged"
    by (simp add: capped_book_def demo_book_forged_def)
  have rep: "replace_first (\<lambda>d. doc_id d = JStr demo_id) demo_book_forged [capped_book]
               = [demo_book_forged]"
    by (simp add: capped_book_def doc_id_def js_get_def)
  from put_edit_plain [OF capped_cast capped_up capped_find should noid]
  show ?thesis by (simp only: doc rep)
qed

lemma capped_edit_repriced:
  "put_edit capped_env demo_id [(''price'', JNum ''29.99'')] [demo_book_forged]
     = (Json 200 (JObj capped_book_repriced), [capped_book_repriced])"
proof -
  have should: "shouldUpdateQRCode [(''price'', JNum ''29.99'')]"
    by (simp add: shouldUpdateQRCode_def Object_keys_def fieldsForQRCode_def)
  have noid: "\<not> list_ex (\<lambda>p. fst p = ''_id'' \<and> snd p \<noteq> JStr demo_id) [(''price'', JNum ''29.99'')]"
    by simp
  have doc: "fold (\<lambda>(k, v). js_set k v)
               (js_set ''qrCode'' (JStr (''data:image/png;base64,'' @ forged_edit_qrData @ demo_pad))
                  [(''price'', JNum ''29.99'')]) demo_book_forged = capped_book_repriced"
    by (simp add: demo_book_forged_def capped_book_repriced_def)
  have rep: "replace_first (\<lambda>d. doc_id d = JStr demo_id) capped_book_repriced [demo_book_forged]
               = [capped_book_repriced]"
    by (simp add: demo_book_forged_def doc_id_def js_get_def)
  from put_edit_qr [OF capped_cast capped_up forged_find should forged_edit_qrData_eq
                       forged_edit_accepted noid]
  show ?thesis by (simp only: doc rep)
qed

subsection \<open>The stored code and the stored fields\<close>

text \<open>
  Claim C1, as amended. A record that the add route has created is added last to the
  collection, and its \<^verbatim>\<open>qrCode\<close> is the encoder's output over the JSON text of
  exactly the ten fields as the request carries them. It is the encoder's output over the
  ten fields as the record holds them whenever the record holds the ten fields as they were
  submitted, which a model that holds a submitted text as a date or as a number does not
  ensure. An edit that names none of the ten fields and does not submit
  \<^verbatim>\<open>qrCode\<close> leaves the ten fields and the \<^verbatim>\<open>qrCode\<close> of the record as
  they were, so the relation holds after it exactly when it held before.
\<close>

theorem qrCode_invariant_add_and_plain_edit:
  "(post_add e now new_id body s = (Json 201 (JObj book), s')
      \<longrightarrow> s' = s @ [book]
          \<and> (\<exists>qrData qrCode. JSON_stringify (JObj (qrObject body)) = Some qrData
                \<and> toDataURL e qrData = Some qrCode \<and> js_get book ''qrCode'' = JStr qrCode)
          \<and> (qrObject book = qrObject body \<longrightarrow> spec_qrCode_invariant e book))
   \<and> (put_edit e k upd s = (Json 200 (JObj book'), s'')
        \<longrightarrow> castObjectId e k = Some i
        \<longrightarrow> find (\<lambda>d. doc_id d = JStr i) s = Some book0
        \<longrightarrow> \<not> shouldUpdateQRCode upd
        \<longrightarrow> ''qrCode'' \<notin> set (Object_keys upd)
        \<longrightarrow> s'' = replace_first (\<lambda>d. doc_id d = JStr i) book' s
            \<and> qrObject book' = qrObject book0
            \<and> js_get book' ''qrCode'' = js_get book0 ''qrCode''
            \<and> spec_qrCode_invariant e book' = spec_qrCode_invariant e book0)"
proof (intro conjI impI)
  assume a: "post_add e now new_id body s = (Json 201 (JObj book), s')"
  from post_add_created [OF a] show "s' = s @ [book]"
    and "\<exists>qrData qrCode. JSON_stringify (JObj (qrObject body)) = Some qrData
            \<and> toDataURL e qrData = Some qrCode \<and> js_get book ''qrCode'' = JStr qrCode"
    by blast+
  assume "qrObject book = qrObject body"
  with a show "spec_qrCode_invariant e book"
    by (rule post_add_created_invariant)
next
  assume ed: "put_edit e k upd s = (Json 200 (JObj book'), s'')"
    and c: "castObjectId e k = Some i"
    and f: "find (\<lambda>d. doc_id d = JStr i) s = Some book0"
    and n: "\<not> shouldUpdateQRCode upd"
    and q: "''qrCode'' \<notin> set (Object_keys upd)"
  from ed c f n have b: "book' = fold (\<lambda>(k, v). js_set k v) upd book0"
    by (rule put_edit_plain_result)
  from ed c f n show "s'' = replace_first (\<lambda>d. doc_id d = JStr i) book' s"
    by (rule put_edit_plain_stored)
  have same: "js_get book' x = js_get book0 x" if "x \<in> set fieldsForQRCode" for x
    using that n by (simp add: b js_get_fold_other not_should_keys)
  then show "qrObject book' = qrObject book0"
    by (rule qrObject_cong)
  show qr: "js_get book' ''qrCode'' = js_get book0 ''qrCode''"
    using q by (simp add: b js_get_fold_other)
  from same qr show "spec_qrCode_invariant e book' = spec_qrCode_invariant e book0"
    by (rule spec_qrCode_invariant_cong)
qed

theorem qrCode_invariant_add_and_plain_edit_witness:
  "post_add demo_env demo_now demo_id demo_body [] = (Json 201 (JObj demo_book), [demo_book])
   \<and> JSON_stringify (JObj (qrObject demo_body)) = Some demo_qrData
   \<and> toDataURL demo_env demo_qrData = Some (''data:image/png;base64,'' @ demo_qrData)
   \<and> js_get demo_book ''qrCode'' = JStr (''data:image/png;base64,'' @ demo_qrData)
   \<and> qrObject demo_book = qrObject demo_body
   \<and> spec_qrCode_invariant demo_env demo_book
   \<and> put_edit demo_env demo_id [(''addedDate'', JStr ''2020-01-01'')] [demo_book]
       = (Json 200 (JObj demo_book_redated), [demo_book_redated])
   \<and> castObjectId demo_env demo_id = Some demo_id
   \<and> find (\<lambda>d. doc_id d = JStr demo_id) [demo_book] = Some demo_book
   \<and> \<not> shouldUpdateQRCode [(''addedDate'', JStr ''2020-01-01'')]
   \<and> ''qrCode'' \<notin> set (Object_keys [(''addedDate'', JStr ''2020-01-01'')])
   \<and> js_get demo_book_redated ''qrCode'' = js_get demo_book ''qrCode''
   \<and> spec_qrCode_invariant demo_env demo_book_redated"
proof -
  have should: "\<not> shouldUpdateQRCode [(''addedDate'', JStr ''2020-01-01'')]"
    by (simp add: shouldUpdateQRCode_def Object_keys_def fieldsForQRCode_def)
  have noqr: "''qrCode'' \<notin> set (Object_keys [(''addedDate'', JStr ''2020-01-01'')])"
    by (simp add: Object_keys_def)
  have same: "qrObject demo_book = qrObject demo_body"
    by (simp add: qrObject_def fieldsForQRCode_def demo_book_def demo_body_def js_get_def)
  have enc: "toDataURL demo_env demo_qrData = Some (''data:image/png;base64,'' @ demo_qrData)"
    by (simp add: demo_env_def)
  have code: "js_get demo_book ''qrCode'' = JStr (''data:image/png;base64,'' @ demo_qrData)"
    by (simp add: demo_book_def js_get_def)
  from qrCode_invariant_add_and_plain_edit
         [where e = demo_env and now = demo_now and new_id = demo_id and body = demo_body
            and s = "[demo_book]" and k = demo_id and i = demo_id
            and upd = "[(''addedDate'', JStr ''2020-01-01'')]"
            and book' = demo_book_redated and s'' = "[demo_book_redated]"
            and ?book0.0 = demo_book]
       demo_edit_redated demo_cast demo_find should noqr
  have "js_get demo_book_redated ''qrCode'' = js_get demo_book ''qrCode''"
    and "spec_qrCode_invariant demo_env demo_book_redated = spec_qrCode_invariant demo_env demo_book"
    by simp_all
  moreover from qrCode_invariant_add_and_plain_edit
         [where e = demo_env and now = demo_now and new_id = demo_id and body = demo_body
            and s = "[]" and book = demo_book and s' = "[demo_book]"]
       demo_add same
  have "spec_qrCode_invariant demo_env demo_book"
    by simp
  ultimately show ?thesis
    using demo_add demo_qrData_eq enc code same demo_edit_redated demo_cast demo_find should noqr
    by simp
qed

text \<open>
  Claim C1, as stated, fails. An edit that submits \<^verbatim>\<open>{ qrCode: "forged" }\<close> for a
  record the add route has created succeeds and stores the submitted text, which is not the
  encoder's output over the ten fields of the record. And a record added with the
  publication date \<^verbatim>\<open>"2020-01-01"\<close>, which the model holds as a date, has the code
  of the submitted text, not that of the date the record holds.
\<close>

theorem qrCode_invariant_counterexample:
  "post_add demo_env demo_now demo_id demo_body [] = (Json 201 (JObj demo_book), [demo_book])
   \<and> put_edit demo_env demo_id [(''qrCode'', JStr ''forged'')] [demo_book]
       = (Json 200 (JObj demo_book_forged), [demo_book_forged])
   \<and> \<not> spec_qrCode_invariant demo_env demo_book_forged
   \<and> post_add demo_env demo_now demo_id demo_body_dated []
       = (Json 201 (JObj demo_book_dated), [demo_book_dated])
   \<and> \<not> spec_qrCode_invariant demo_env demo_book_dated"
proof -
  have "qrObject demo_book_forged = qrObject demo_body"
    by (simp add: qrObject_def fieldsForQRCode_def demo_book_forged_def demo_body_def js_get_def)
  then have forged: "\<not> spec_qrCode_invariant demo_env demo_book_forged"
    using demo_qrData_eq
    by (simp add: spec_qrCode_invariant_def demo_env_def)
       (simp add: demo_book_forged_def js_get_def)
  from demo_add demo_edit_forged forged demo_add_dated demo_dated_not_invariant show ?thesis
    by simp
qed

subsection \<open>Which edits touch the stored code\<close>

text \<open>
  Claim C2, as amended. \<^verbatim>\<open>price\<close> is one of the ten names of
  \<^verbatim>\<open>fieldsForQRCode\<close>. For an existing record (an object: no field name twice), an
  edit that submits a number as the price asks the encoder for a new code, over the JSON
  text of an object that holds the submitted price and the other nine fields as the record
  holds them. If the encoder refuses that text, or the database does not answer, the reply
  is 500 and the collection is as it was, the stored \<^verbatim>\<open>qrCode\<close> with it. If the
  encoder gives a code and the database answers, the reply is 200 and the stored record
  holds that code as its \<^verbatim>\<open>qrCode\<close>, and the submitted price. While the database
  answers, an edit that names none of the ten fields nor \<^verbatim>\<open>qrCode\<close>, and does not
  ask for another identifier, is answered 200 and leaves the stored \<^verbatim>\<open>qrCode\<close> as
  it was.
\<close>

theorem edit_price_asks_encoder:
  assumes "castObjectId e k = Some i"
    and "find (\<lambda>d. doc_id d = JStr i) s = Some book"
    and "distinct (map fst book)"
  shows "(\<exists>ob qrData.
            edit_qrData book [(''price'', JNum t)] = Some qrData
            \<and> JSON_stringify (JObj ob) = Some qrData
            \<and> js_get ob ''price'' = JNum t
            \<and> (\<forall>f \<in> set fieldsForQRCode. f \<noteq> ''price'' \<longrightarrow> js_get ob f = js_get book f)
            \<and> (toDataURL e qrData = None \<or> \<not> store_up e
                 \<longrightarrow> put_edit e k [(''price'', JNum t)] s = (Send 500 ''Error editing book'', s))
            \<and> (\<forall>qrCode. toDataURL e qrData = Some qrCode \<longrightarrow> store_up e
                 \<longrightarrow> (\<exists>doc. put_edit e k [(''price'', JNum t)] s
                              = (Json 200 (JObj doc), replace_first (\<lambda>d. doc_id d = JStr i) doc s)
                            \<and> js_get doc ''qrCode'' = JStr qrCode
                            \<and> js_get doc ''price'' = JNum t)))
       \<and> (store_up e \<longrightarrow> \<not> shouldUpdateQRCode upd \<longrightarrow> ''qrCode'' \<notin> set (Object_keys upd)
           \<longrightarrow> \<not> list_ex (\<lambda>p. fst p = ''_id'' \<and> snd p \<noteq> JStr i) upd
           \<longrightarrow> (\<exists>doc. put_edit e k upd s
                        = (Json 200 (JObj doc), replace_first (\<lambda>d. doc_id d = JStr i) doc s)
                      \<and> js_get doc ''qrCode'' = js_get book ''qrCode''))"
proof (rule conjI)
  let ?upd = "[(''price'', JNum t)]"
  let ?ob = "spread (toObject book) ?upd"
  obtain qrData where q: "edit_qrData book ?upd = Some qrData"
    using edit_qrData_Some by blast
  have should: "shouldUpdateQRCode ?upd"
    by (simp add: shouldUpdateQRCode_def Object_keys_def fieldsForQRCode_def)
  have noid: "\<not> list_ex (\<lambda>x. fst x = ''_id'' \<and> snd x \<noteq> JStr i) ?upd"
    by simp
  from q have 1: "JSON_stringify (JObj ?ob) = Some qrData"
    by (simp only: edit_qrData_def)
  have 2: "js_get ?ob ''price'' = JNum t"
    by (simp add: js_get_spread [OF assms(3)])
  have 3: "\<forall>f \<in> set fieldsForQRCode. f \<noteq> ''price'' \<longrightarrow> js_get ?ob f = js_get book f"
    by (simp add: js_get_spread [OF assms(3)])
  have 4: "toDataURL e qrData = None \<or> \<not> store_up e
             \<longrightarrow> put_edit e k ?upd s = (Send 500 ''Error editing book'', s)"
    using put_edit_refused [OF assms(1,2) should q] by blast
  have 5: "\<forall>qrCode. toDataURL e qrData = Some qrCode \<longrightarrow> store_up e
             \<longrightarrow> (\<exists>doc. put_edit e k ?upd s
                          = (Json 200 (JObj doc), replace_first (\<lambda>d. doc_id d = JStr i) doc s)
                        \<and> js_get doc ''qrCode'' = JStr qrCode
                        \<and> js_get doc ''price'' = JNum t)"
  proof (intro allI impI)
    fix qrCode
    assume enc: "toDataURL e qrData = Some qrCode" and up: "store_up e"
    let ?doc = "js_set ''qrCode'' (JStr qrCode) (js_set ''price'' (JNum t) book)"
    from put_edit_qr [OF assms(1) up assms(2) should q enc noid]
    have "put_edit e k ?upd s
            = (Json 200 (JObj ?doc), replace_first (\<lambda>d. doc_id d = JStr i) ?doc s)"
      by simp
    moreover have "js_get ?doc ''qrCode'' = JStr qrCode" "js_get ?doc ''price'' = JNum t"
      by (simp_all add: js_get_js_set)
    ultimately show "\<exists>doc. put_edit e k ?upd s
                          = (Json 200 (JObj doc), replace_first (\<lambda>d. doc_id d = JStr i) doc s)
                        \<and> js_get doc ''qrCode'' = JStr qrCode
                        \<and> js_get doc ''price'' = JNum t"
      by blast
  qed
  from q 1 2 3 4 5
  show "\<exists>ob qrData.
            edit_qrData book [(''price'', JNum t)] = Some qrData
            \<and> JSON_stringify (JObj ob) = Some qrData
            \<and> js_get ob ''price'' = JNum t
            \<and> (\<forall>f \<in> set fieldsForQRCode. f \<noteq> ''price'' \<longrightarrow> js_get ob f = js_get book f)
            \<and> (toDataURL e qrData = None \<or> \<not> store_up e
                 \<longrightarrow> put_edit e k [(''price'', JNum t)] s = (Send 500 ''Error editing book'', s))
            \<and> (\<forall>qrCode. toDataURL e qrData = Some qrCode \<longrightarrow> store_up e
                 \<longrightarrow> (\<exists>doc. put_edit e k [(''price'', JNum t)] s
                              = (Json 200 (JObj doc), replace_first (\<lambda>d. doc_id d = JStr i) doc s)
                            \<and> js_get doc ''qrCode'' = JStr qrCode
                            \<and> js_get doc ''price'' = JNum t))"
    by blast
next
  show "store_up e \<longrightarrow> \<not> shouldUpdateQRCode upd \<longrightarrow> ''qrCode'' \<notin> set (Object_keys upd)
           \<longrightarrow> \<not> list_ex (\<lambda>p. fst p = ''_id'' \<and> snd p \<noteq> JStr i) upd
           \<longrightarrow> (\<exists>doc. put_edit e k upd s
                        = (Json 200 (JObj doc), replace_first (\<lambda>d. doc_id d = JStr i) doc s)
                      \<and> js_get doc ''qrCode'' = js_get book ''qrCode'')"
  proof (intro impI)
    assume up: "store_up e" and n: "\<not> shouldUpdateQRCode upd"
      and q: "''qrCode'' \<notin> set (Object_keys upd)"
      and noid: "\<not> list_ex (\<lambda>p. fst p = ''_id'' \<and> snd p \<noteq> JStr i) upd"
    let ?doc = "fold (\<lambda>(k, v). js_set k v) upd book"
    from put_edit_plain [OF assms(1) up assms(2) n noid]
    have "put_edit e k upd s = (Json 200 (JObj ?doc), replace_first (\<lambda>d. doc_id d = JStr i) ?doc s)" .
    moreover from q have "js_get ?doc ''qrCode'' = js_get book ''qrCode''"
      by (rule js_get_fold_other)
    ultimately show "\<exists>doc. put_edit e k upd s
                        = (Json 200 (JObj doc), replace_first (\<lambda>d. doc_id d = JStr i) doc s)
                      \<and> js_get doc ''qrCode'' = js_get book ''qrCode''"
      by blast
  qed
qed

theorem edit_price_asks_encoder_witness:
  "castObjectId capped_env demo_id = Some demo_id
   \<and> find (\<lambda>d. doc_id d = JStr demo_id) [capped_book] = Some capped_book
   \<and> distinct (map fst capped_book)
   \<and> edit_qrData capped_book [(''price'', JNum ''29.99'')] = Some capped_edit_qrData
   \<and> toDataURL capped_env capped_edit_qrData = None
   \<and> put_edit capped_env demo_id [(''price'', JNum ''29.99'')] [capped_book]
       = (Send 500 ''Error editing book'', [capped_book])
   \<and> find (\<lambda>d. doc_id d = JStr demo_id) [demo_book_forged] = Some demo_book_forged
   \<and> distinct (map fst demo_book_forged)
   \<and> edit_qrData demo_book_forged [(''price'', JNum ''29.99'')] = Some forged_edit_qrData
   \<and> toDataURL capped_env forged_edit_qrData
       = Some (''data:image/png;base64,'' @ forged_edit_qrData @ demo_pad)
   \<and> store_up capped_env
   \<and> put_edit capped_env demo_id [(''price'', JNum ''29.99'')] [demo_book_forged]
       = (Json 200 (JObj capped_book_repriced), [capped_book_repriced])
   \<and> js_get capped_book_repriced ''qrCode''
       = JStr (''data:image/png;base64,'' @ forged_edit_qrData @ demo_pad)
   \<and> js_get capped_book_repriced ''price'' = JNum ''29.99''
   \<and> castObjectId demo_env demo_id = Some demo_id
   \<and> find (\<lambda>d. doc_id d = JStr demo_id) [demo_book] = Some demo_book
   \<and> distinct (map fst demo_book)
   \<and> store_up demo_env
   \<and> \<not> shouldUpdateQRCode [(''addedDate'', JStr ''2020-01-01'')]
   \<and> ''qrCode'' \<notin> set (Object_keys [(''addedDate'', JStr ''2020-01-01'')])
   \<and> \<not> list_ex (\<lambda>p. fst p = ''_id'' \<and> snd p \<noteq> JStr demo_id)
         [(''addedDate'', JStr ''2020-01-01'')]
   \<and> put_edit demo_env demo_id [(''addedDate'', JStr ''2020-01-01'')] [demo_book]
       = (Json 200 (JObj demo_book_redated), [demo_book_redated])
   \<and> js_get demo_book_redated ''qrCode'' = js_get demo_book ''qrCode''"
proof -
  have d1: "distinct (map fst capped_book)"
    by (simp add: capped_book_def)
  have d2: "distinct (map fst demo_book_forged)"
    by (simp add: demo_book_forged_def)
  have d3: "distinct (map fst demo_book)"
    by (simp add: demo_book_def)
  have should: "\<not> shouldUpdateQRCode [(''addedDate'', JStr ''2020-01-01'')]"
    by (simp add: shouldUpdateQRCode_def Object_keys_def fieldsForQRCode_def)
  have keys: "''qrCode'' \<notin> set (Object_keys [(''addedDate'', JStr ''2020-01-01'')])"
    "\<not> list_ex (\<lambda>p. fst p = ''_id'' \<and> snd p \<noteq> JStr demo_id)
         [(''addedDate'', JStr ''2020-01-01'')]"
    by (simp_all add: Object_keys_def)
  from edit_price_asks_encoder [OF capped_cast capped_find d1, of "''29.99''"]
  obtain qrData where "edit_qrData capped_book [(''price'', JNum ''29.99'')] = Some qrData"
    and "toDataURL capped_env qrData = None \<or> \<not> store_up capped_env
           \<longrightarrow> put_edit capped_env demo_id [(''price'', JNum ''29.99'')] [capped_book]
                 = (Send 500 ''Error editing book'', [capped_book])"
    by blast
  with capped_edit_qrData_eq capped_edit_refused
  have refused: "put_edit capped_env demo_id [(''price'', JNum ''29.99'')] [capped_book]
                   = (Send 500 ''Error editing book'', [capped_book])"
    by simp
  from edit_price_asks_encoder [OF capped_cast forged_find d2, of "''29.99''"]
  obtain qrData where "edit_qrData demo_book_forged [(''price'', JNum ''29.99'')] = Some qrData"
    and "\<forall>qrCode. toDataURL capped_env qrData = Some qrCode \<longrightarrow> store_up capped_env
           \<longrightarrow> (\<exists>doc. put_edit capped_env demo_id [(''price'', JNum ''29.99'')] [demo_book_forged]
                        = (Json 200 (JObj doc),
                           replace_first (\<lambda>d. doc_id d = JStr demo_id) doc [demo_book_forged])
                      \<and> js_get doc ''qrCode'' = JStr qrCode
                      \<and> js_get doc ''price'' = JNum ''29.99'')"
    by blast
  with forged_edit_qrData_eq forged_edit_accepted capped_up
  obtain doc where "put_edit capped_env demo_id [(''price'', JNum ''29.99'')] [demo_book_forged]
                      = (Json 200 (JObj doc),
                         replace_first (\<lambda>d. doc_id d = JStr demo_id) doc [demo_book_forged])"
    and "js_get doc ''qrCode'' = JStr (''data:image/png;base64,'' @ forged_edit_qrData @ demo_pad)"
    and "js_get doc ''price'' = JNum ''29.99''"
    by auto
  with capped_edit_repriced
  have accepted: "js_get capped_book_repriced ''qrCode''
                    = JStr (''data:image/png;base64,'' @ forged_edit_qrData @ demo_pad)"
    "js_get capped_book_repriced ''price'' = JNum ''29.99''"
    by simp_all
  from edit_price_asks_encoder
         [OF demo_cast demo_find d3, where upd = "[(''addedDate'', JStr ''2020-01-01'')]"]
       demo_up should keys
  obtain doc where "put_edit demo_env demo_id [(''addedDate'', JStr ''2020-01-01'')] [demo_book]
                      = (Json 200 (JObj doc),
                         replace_first (\<lambda>d. doc_id d = JStr demo_id) doc [demo_book])"
    and "js_get doc ''qrCode'' = js_get demo_book ''qrCode''"
    by blast
  with demo_edit_redated
  have plain: "js_get demo_book_redated ''qrCode'' = js_get demo_book ''qrCode''"
    by simp
  from capped_cast capped_find d1 capped_edit_qrData_eq capped_edit_refused refused
       forged_find d2 forged_edit_qrData_eq forged_edit_accepted capped_up capped_edit_repriced
       accepted demo_cast demo_find d3 demo_up should keys demo_edit_redated plain
  show ?thesis
    by (simp only: simp_thms)
qed

text \<open>
  Claim C2, as stated, fails, also with an encoder of limited capacity: for a record whose
  \<^verbatim>\<open>qrCode\<close> an edit has set to the text \<^verbatim>\<open>forged\<close>, the edit
  \<^verbatim>\<open>{ price: 29.99 }\<close> succeeds, and the stored \<^verbatim>\<open>qrCode\<close> is the
  encoder's output afterwards, not the text it was before.
\<close>

theorem edit_price_keeps_qrCode_counterexample:
  "post_add capped_env demo_now demo_id demo_body [] = (Json 201 (JObj capped_book), [capped_book])
   \<and> put_edit capped_env demo_id [(''qrCode'', JStr ''forged'')] [capped_book]
       = (Json 200 (JObj demo_book_forged), [demo_book_forged])
   \<and> put_edit capped_env demo_id [(''price'', JNum ''29.99'')] [demo_book_forged]
       = (Json 200 (JObj capped_book_repriced), [capped_book_repriced])
   \<and> js_get capped_book_repriced ''qrCode'' \<noteq> js_get demo_book_forged ''qrCode''"
proof -
  have "js_get capped_book_repriced ''qrCode'' \<noteq> js_get demo_book_forged ''qrCode''"
    by (simp add: capped_book_repriced_def demo_book_forged_def js_get_def)
  with capped_add capped_edit_forged capped_edit_repriced show ?thesis
    by simp
qed

subsection \<open>The add route validates before it writes\<close>

text \<open>
  Claim C3. When one of \<^verbatim>\<open>title\<close>, \<^verbatim>\<open>author\<close>, \<^verbatim>\<open>publisher\<close>, \<^verbatim>\<open>isbn\<close> is
  missing from the body of an add request, or is the empty text, the reply is the 400
  validation failure and the collection is what it was.
\<close>

theorem add_rejects_missing_required:
  assumes "f \<in> set [''title'', ''author'', ''publisher'', ''isbn'']"
    and "f \<notin> set (Object_keys body) \<or> js_get body f = JStr []"
  shows "post_add e now new_id body s =
           (Send 400 ''Title, author, publisher, and ISBN are required.'', s)"
proof -
  from assms(2) have "\<not> truthy (js_get body f)"
    by (auto simp: js_get_absent)
  with assms(1) have "\<not> required_present body"
    by (auto simp: required_present_def)
  then show ?thesis by (simp add: post_add_unfold)
qed

theorem add_rejects_missing_required_witness:
  "''isbn'' \<in> set [''title'', ''author'', ''publisher'', ''isbn'']
   \<and> ''isbn'' \<notin> set (Object_keys [(''title'', JStr ''T''), (''author'', JStr []),
                                    (''publisher'', JStr ''P'')])
   \<and> post_add demo_env demo_now demo_id
        [(''title'', JStr ''T''), (''author'', JStr []), (''publisher'', JStr ''P'')] []
      = (Send 400 ''Title, author, publisher, and ISBN are required.'', [])"
  using add_rejects_missing_required
          [of "''isbn''" "[(''title'', JStr ''T''), (''author'', JStr []), (''publisher'', JStr ''P'')]"
              demo_env demo_now demo_id "[]"]
  by (simp add: Object_keys_def)

subsection \<open>What the add route encodes and stores\<close>

text \<open>
  Claim C4, as amended. For a body that passes the guard, with an encoder that accepts the
  text and a store that takes the document, the reply is 201 with the stored document, which
  is added last to the collection; its \<^verbatim>\<open>addedDate\<close> is the time of the request and
  its \<^verbatim>\<open>qrCode\<close> the encoder's output. The text encoded is the JSON text of the object
  that holds only those of the ten fields whose value the body defines, in the order of the
  source: a field the body does not carry is left out of the text.
\<close>

theorem add_omits_absent_fields_and_dates:
  assumes "required_present body"
    and "JSON_stringify (JObj (qrObject body)) = Some qrData"
    and "toDataURL e qrData = Some qrCode"
    and "store_up e"
    and "JStr new_id \<notin> set (map doc_id s)"
    and "book = new_Book e new_id (qrObject body @ [(''qrCode'', JStr qrCode), (''addedDate'', JDate now)])"
  shows "post_add e now new_id body s = (Json 201 (JObj book), s @ [book])
         \<and> js_get book ''addedDate'' = JDate now
         \<and> js_get book ''qrCode'' = JStr qrCode
         \<and> JSON_stringify (JObj (filter (\<lambda>p. snd p \<noteq> JUndefined) (qrObject body))) = Some qrData"
proof -
  have "post_add e now new_id body s = (Json 201 (JObj book), s @ [book])"
    using assms(1-5) unfolding assms(6) by (rule post_add_success)
  moreover have "js_get book ''addedDate'' = JDate now"
    unfolding assms(6)
    by (simp add: js_get_new_Book [OF distinct_added_props] js_get_added_props castField_typed)
  moreover have "js_get book ''qrCode'' = JStr qrCode"
    unfolding assms(6)
    by (simp add: js_get_new_Book [OF distinct_added_props] js_get_added_props castField_typed)
  moreover have "JSON_stringify (JObj (filter (\<lambda>p. snd p \<noteq> JUndefined) (qrObject body))) = Some qrData"
    using assms(2) by (simp only: JSON_stringify_obj_defined)
  ultimately show ?thesis by simp
qed

theorem add_omits_absent_fields_and_dates_witness:
  "required_present demo_body
   \<and> JSON_stringify (JObj (qrObject demo_body)) = Some demo_qrData
   \<and> toDataURL demo_env demo_qrData = Some (''data:image/png;base64,'' @ demo_qrData)
   \<and> store_up demo_env
   \<and> JStr demo_id \<notin> set (map doc_id [])
   \<and> post_add demo_env demo_now demo_id demo_body [] = (Json 201 (JObj demo_book), [demo_book])
   \<and> js_get demo_book ''addedDate'' = JDate demo_now
   \<and> js_get demo_book ''qrCode'' = JStr (''data:image/png;base64,'' @ demo_qrData)
   \<and> JSON_stringify (JObj (filter (\<lambda>p. snd p \<noteq> JUndefined) (qrObject demo_body)))
       = Some demo_qrData"
proof -
  have enc: "toDataURL demo_env demo_qrData = Some (''data:image/png;base64,'' @ demo_qrData)"
    by (simp add: demo_env_def)
  have up: "store_up demo_env"
    by (simp add: demo_env_def)
  have fresh: "JStr demo_id \<notin> set (map doc_id [])"
    by simp
  from add_omits_absent_fields_and_dates
         [OF demo_required demo_qrData_eq enc up fresh demo_new_Book [symmetric]]
  show ?thesis
    using demo_required demo_qrData_eq enc up by simp
qed

text \<open>
  Claim C4, as stated, fails: for a body with the four required fields alone, the text
  encoded names four properties, and \<^verbatim>\<open>exam\<close> is not among them.
\<close>

theorem add_names_all_fields_counterexample:
  "post_add demo_env demo_now demo_id demo_body [] = (Json 201 (JObj demo_book), [demo_book])
   \<and> js_get demo_book ''qrCode'' = JStr (''data:image/png;base64,'' @ demo_qrData)
   \<and> JSON_stringify (JObj (qrObject demo_body)) = Some demo_qrData
   \<and> \<not> spec_names_all_fields demo_qrData"
proof -
  have "\<not> occurs_in (QuoteJSONString ''exam'' @ '':'') demo_qrData"
    by (simp add: QuoteJSONString_def QuoteJSONChar_def demo_qrData_def)
  then have "\<not> spec_names_all_fields demo_qrData"
    by (simp add: spec_names_all_fields_def fieldsForQRCode_def)
  moreover have "js_get demo_book ''qrCode'' = JStr (''data:image/png;base64,'' @ demo_qrData)"
    by (simp add: demo_book_def js_get_def)
  ultimately show ?thesis using demo_add demo_qrData_eq by simp
qed

subsection \<open>The sort route\<close>

text \<open>
  Claim C5. A \<^verbatim>\<open>sortBy\<close> other than \<^verbatim>\<open>addedDate\<close> and \<^verbatim>\<open>title\<close> is answered with
  400, and so is, for an admitted \<^verbatim>\<open>sortBy\<close>, an \<^verbatim>\<open>order\<close> other than \<^verbatim>\<open>asc\<close>
  and \<^verbatim>\<open>desc\<close>; the collection is untouched. For admitted arguments, while the database
  answers, the reply is 200 with all the records of the collection (the same multiset),
  ordered by the field, ascending for \<^verbatim>\<open>asc\<close> and descending for \<^verbatim>\<open>desc\<close>. The
  witness is the example of the specification: the titles B, A, C come back as A, B, C and
  as C, B, A.
\<close>

theorem sort_validates_and_orders:
  "(sortBy \<noteq> JStr ''addedDate'' \<and> sortBy \<noteq> JStr ''title''
      \<longrightarrow> get_sort e sortBy order s = (Send 400 ''Invalid sort field'', s))
   \<and> ((sortBy = JStr ''addedDate'' \<or> sortBy = JStr ''title'')
        \<longrightarrow> order \<noteq> JStr ''asc'' \<and> order \<noteq> JStr ''desc''
        \<longrightarrow> get_sort e sortBy order s = (Send 400 ''Invalid sort order'', s))
   \<and> (store_up e \<longrightarrow> (f = ''addedDate'' \<or> f = ''title'')
        \<longrightarrow> (order = JStr ''asc'' \<or> order = JStr ''desc'')
        \<longrightarrow> (\<exists>books. get_sort e (JStr f) order s = (Json 200 (JArr (map JObj books)), s)
                     \<and> mset books = mset s \<and> ordered_by f (order = JStr ''asc'') books))"
proof (intro conjI impI)
  assume "sortBy \<noteq> JStr ''addedDate'' \<and> sortBy \<noteq> JStr ''title''"
  then show "get_sort e sortBy order s = (Send 400 ''Invalid sort field'', s)"
    by (simp add: get_sort_def)
next
  assume "sortBy = JStr ''addedDate'' \<or> sortBy = JStr ''title''"
    and "order \<noteq> JStr ''asc'' \<and> order \<noteq> JStr ''desc''"
  then show "get_sort e sortBy order s = (Send 400 ''Invalid sort order'', s)"
    by (auto simp: get_sort_def)
next
  assume up: "store_up e" and f: "f = ''addedDate'' \<or> f = ''title''"
    and o: "order = JStr ''asc'' \<or> order = JStr ''desc''"
  show "\<exists>books. get_sort e (JStr f) order s = (Json 200 (JArr (map JObj books)), s)
                 \<and> mset books = mset s \<and> ordered_by f (order = JStr ''asc'') books"
  proof (cases "order = JStr ''asc''")
    case True
    with up f have "get_sort e (JStr f) order s
        = (Json 200 (JArr (map JObj (sort_key (\<lambda>d. bson_key (js_get d f)) s))), s)"
      by (auto simp: get_sort_def Book_find_sort_up)
    with True show ?thesis
      using ordered_by_ascending [of f s] by auto
  next
    case False
    with o have "order = JStr ''desc''" by simp
    with up f have "get_sort e (JStr f) order s
        = (Json 200 (JArr (map JObj (rev (sort_key (\<lambda>d. bson_key (js_get d f)) (rev s))))), s)"
      by (auto simp: get_sort_def Book_find_sort_up)
    with False show ?thesis
      using ordered_by_descending [of f "rev s"] by auto
  qed
qed

theorem sort_validates_and_orders_witness:
  "store_up demo_env
   \<and> get_sort demo_env (JStr ''year'') (JStr ''asc'') [book_B, book_A, book_C]
       = (Send 400 ''Invalid sort field'', [book_B, book_A, book_C])
   \<and> get_sort demo_env (JStr ''title'') JUndefined [book_B, book_A, book_C]
       = (Send 400 ''Invalid sort order'', [book_B, book_A, book_C])
   \<and> get_sort demo_env (JStr ''title'') (JStr ''asc'') [book_B, book_A, book_C]
       = (Json 200 (JArr (map JObj [book_A, book_B, book_C])), [book_B, book_A, book_C])
   \<and> ordered_by ''title'' True [book_A, book_B, book_C]
   \<and> get_sort demo_env (JStr ''title'') (JStr ''desc'') [book_B, book_A, book_C]
       = (Json 200 (JArr (map JObj [book_C, book_B, book_A])), [book_B, book_A, book_C])
   \<and> ordered_by ''title'' False [book_C, book_B, book_A]"
proof -
  note inst = sort_validates_and_orders [where e = demo_env and s = "[book_B, book_A, book_C]"]
  from inst [where sortBy = "JStr ''year''" and order = "JStr ''asc''"]
  have field: "get_sort demo_env (JStr ''year'') (JStr ''asc'') [book_B, book_A, book_C]
                 = (Send 400 ''Invalid sort field'', [book_B, book_A, book_C])"
    by simp
  from inst [where sortBy = "JStr ''title''" and order = JUndefined]
  have ord: "get_sort demo_env (JStr ''title'') JUndefined [book_B, book_A, book_C]
               = (Send 400 ''Invalid sort order'', [book_B, book_A, book_C])"
    by simp
  from inst [where f = "''title''" and order = "JStr ''asc''"] demo_up
  obtain books where "get_sort demo_env (JStr ''title'') (JStr ''asc'') [book_B, book_A, book_C]
        = (Json 200 (JArr (map JObj books)), [book_B, book_A, book_C])"
    and "ordered_by ''title'' True books"
    by auto
  with demo_sort_asc have asc: "ordered_by ''title'' True [book_A, book_B, book_C]"
    by (auto dest: map_JObj_eq)
  from inst [where f = "''title''" and order = "JStr ''desc''"] demo_up
  obtain books where "get_sort demo_env (JStr ''title'') (JStr ''desc'') [book_B, book_A, book_C]
        = (Json 200 (JArr (map JObj books)), [book_B, book_A, book_C])"
    and "ordered_by ''title'' False books"
    by auto
  with demo_sort_desc have desc: "ordered_by ''title'' False [book_C, book_B, book_A]"
    by (auto dest: map_JObj_eq)
  from field ord asc desc demo_sort_asc demo_sort_desc demo_up show ?thesis
    by simp
qed

subsection \<open>The detail route\<close>

text \<open>
  Claim C6, as amended. While the database answers: a key made of digits only is looked up
  by equality on \<^verbatim>\<open>isbn\<close>; any other key that the identifier cast accepts is looked up
  by identifier; in both cases the reply is the first matching record, or 404 when no record
  matches.
\<close>

theorem detail_dispatch_not_found:
  assumes "store_up e"
  shows "(digits_only key
           \<longrightarrow> get_detail e key s
                 = (case find (\<lambda>d. js_get d ''isbn'' = JStr key) s of
                      None \<Rightarrow> (Send 404 ''Book not found'', s)
                    | Some book \<Rightarrow> (Json 200 (JObj book), s)))
       \<and> (\<not> digits_only key \<longrightarrow> castObjectId e key = Some i
           \<longrightarrow> get_detail e key s
                 = (case find (\<lambda>d. doc_id d = JStr i) s of
                      None \<Rightarrow> (Send 404 ''Book not found'', s)
                    | Some book \<Rightarrow> (Json 200 (JObj book), s)))"
  using assms
  by (auto simp: get_detail_def Book_findOne_def split: option.splits)

theorem detail_dispatch_not_found_witness:
  "store_up demo_env
   \<and> digits_only ''123''
   \<and> get_detail demo_env ''123'' [demo_book] = (Json 200 (JObj demo_book), [demo_book])
   \<and> digits_only ''456''
   \<and> get_detail demo_env ''456'' [demo_book] = (Send 404 ''Book not found'', [demo_book])
   \<and> \<not> digits_only demo_id \<and> castObjectId demo_env demo_id = Some demo_id
   \<and> get_detail demo_env demo_id [demo_book] = (Json 200 (JObj demo_book), [demo_book])
   \<and> get_detail demo_env demo_id [] = (Send 404 ''Book not found'', [])"
proof -
  have isbn: "find (\<lambda>d. js_get d ''isbn'' = JStr ''123'') [demo_book] = Some demo_book"
    "find (\<lambda>d. js_get d ''isbn'' = JStr ''456'') [demo_book] = None"
    by (simp_all add: demo_book_def js_get_def)
  have d: "digits_only ''456''"
    by (simp add: digits_only_def is_digit_def)
  from detail_dispatch_not_found [OF demo_up, where key = "''123''" and s = "[demo_book]"]
       detail_dispatch_not_found [OF demo_up, where key = "''456''" and s = "[demo_book]"]
       detail_dispatch_not_found [OF demo_up, where key = demo_id and s = "[demo_book]" and i = demo_id]
       detail_dispatch_not_found [OF demo_up, where key = demo_id and s = "[]" and i = demo_id]
       demo_digits d demo_cast demo_find isbn demo_up
  show ?thesis by simp
qed

text \<open>
  Claim C6, as stated, fails: the key \<^verbatim>\<open>abc\<close> is not made of digits and is no
  identifier; no record matches it, by identifier or by \<^verbatim>\<open>isbn\<close>, and the reply is 500,
  not 404.
\<close>

theorem detail_not_found_counterexample:
  "\<not> digits_only ''abc''
   \<and> find (\<lambda>d. doc_id d = JStr ''abc'') [demo_book] = None
   \<and> find (\<lambda>d. js_get d ''isbn'' = JStr ''abc'') [demo_book] = None
   \<and> get_detail demo_env ''abc'' [demo_book]
       = (Send 500 ''Error fetching book details'', [demo_book])"
  using demo_digits(3) demo_cast_abc
  by (simp add: get_detail_def Book_findOne_def demo_book_def doc_id_def js_get_def demo_id_def)

subsection \<open>Failures of the add route\<close>

text \<open>
  Claim C7. When the body passes the guard and the encoder rejects the text, nothing is
  written: the collection is what it was. A rejected encoding and a failed write (the
  database does not answer, or the identifier is taken) give the same reply, status 500
  with the fixed text \<^verbatim>\<open>Error adding book\<close>, which carries nothing of the error.
\<close>

theorem add_failure_is_generic:
  assumes "required_present body"
    and "JSON_stringify (JObj (qrObject body)) = Some qrData"
    and "toDataURL e qrData = None \<or> \<not> store_up e \<or> JStr new_id \<in> set (map doc_id s)"
  shows "post_add e now new_id body s = (Send 500 ''Error adding book'', s)"
  using assms
  by (auto simp: post_add_unfold Book_save_def doc_id_new_Book split: option.splits)

theorem add_failure_is_generic_witness:
  "required_present demo_body
   \<and> JSON_stringify (JObj (qrObject demo_body)) = Some demo_qrData
   \<and> toDataURL (demo_env\<lparr>toDataURL := \<lambda>t. None\<rparr>) demo_qrData = None
   \<and> post_add (demo_env\<lparr>toDataURL := \<lambda>t. None\<rparr>) demo_now demo_id demo_body [demo_book]
       = (Send 500 ''Error adding book'', [demo_book])
   \<and> store_up (demo_env\<lparr>store_up := False\<rparr>) = False
   \<and> post_add (demo_env\<lparr>store_up := False\<rparr>) demo_now demo_id demo_body [demo_book]
       = (Send 500 ''Error adding book'', [demo_book])"
  using add_failure_is_generic
          [of demo_body demo_qrData "demo_env\<lparr>toDataURL := \<lambda>t. None\<rparr>" demo_id "[demo_book]" demo_now]
        add_failure_is_generic
          [of demo_body demo_qrData "demo_env\<lparr>store_up := False\<rparr>" demo_id "[demo_book]" demo_now]
        demo_qrData_eq demo_required
  by simp

subsection \<open>The delete route\<close>

text \<open>
  Claim C8, as amended. While the database answers, for a key that the identifier cast
  accepts, in a collection whose identifiers are distinct: when no record has the identifier
  the reply is 404 and the collection is what it was; when a record has it the reply is 200,
  that record and no other is removed (one record fewer), no record has the identifier
  afterwards, and a second delete with the same key replies 404 and changes nothing.
\<close>

theorem delete_removes_or_reports_absent:
  assumes "store_up e" and "castObjectId e key = Some i" and "distinct (map doc_id s)"
  shows "(find (\<lambda>d. doc_id d = JStr i) s = None
           \<longrightarrow> delete_delete e key s = (Send 404 ''Book not found'', s))
       \<and> (find (\<lambda>d. doc_id d = JStr i) s = Some book
           \<longrightarrow> delete_delete e key s = (Send 200 ''Book deleted successfully'', remove1 book s)
               \<and> set (remove1 book s) = set s - {book}
               \<and> Suc (length (remove1 book s)) = length s
               \<and> find (\<lambda>d. doc_id d = JStr i) (remove1 book s) = None
               \<and> delete_delete e key (remove1 book s)
                   = (Send 404 ''Book not found'', remove1 book s))"
proof (intro conjI impI)
  assume "find (\<lambda>d. doc_id d = JStr i) s = None"
  with assms show "delete_delete e key s = (Send 404 ''Book not found'', s)"
    by (simp add: delete_delete_def Book_findByIdAndDelete_def)
next
  assume f: "find (\<lambda>d. doc_id d = JStr i) s = Some book"
  then have b: "doc_id book = JStr i" "book \<in> set s"
    by (auto dest: find_Some_holds)
  from assms f show "delete_delete e key s = (Send 200 ''Book deleted successfully'', remove1 book s)"
    by (simp add: delete_delete_def Book_findByIdAndDelete_def)
  from assms(3) have "distinct s"
    by (simp add: distinct_map)
  then show "set (remove1 book s) = set s - {book}"
    by simp
  from b show "Suc (length (remove1 book s)) = length s"
    by (simp add: length_remove1) (cases s; auto)
  from distinct_ids_remove1 [OF assms(3) b(2)] b(1)
  show gone: "find (\<lambda>d. doc_id d = JStr i) (remove1 book s) = None"
    by (simp add: doc_id_in_ids)
  with assms show "delete_delete e key (remove1 book s) = (Send 404 ''Book not found'', remove1 book s)"
    by (simp add: delete_delete_def Book_findByIdAndDelete_def)
qed

theorem delete_removes_or_reports_absent_witness:
  "store_up demo_env \<and> castObjectId demo_env demo_id = Some demo_id
   \<and> distinct (map doc_id [book_A, demo_book])
   \<and> find (\<lambda>d. doc_id d = JStr demo_id) [book_A, demo_book] = Some demo_book
   \<and> delete_delete demo_env demo_id [book_A, demo_book]
       = (Send 200 ''Book deleted successfully'', [book_A])
   \<and> find (\<lambda>d. doc_id d = JStr demo_id) [book_A] = None
   \<and> delete_delete demo_env demo_id [book_A] = (Send 404 ''Book not found'', [book_A])"
proof -
  have d: "distinct (map doc_id [book_A, demo_book])"
    by (simp add: book_A_def demo_book_def doc_id_def js_get_def demo_id_def)
  have f: "find (\<lambda>d. doc_id d = JStr demo_id) [book_A, demo_book] = Some demo_book"
    by (simp add: book_A_def demo_book_def doc_id_def js_get_def demo_id_def)
  have r: "remove1 demo_book [book_A, demo_book] = [book_A]"
    by (simp add: book_A_def demo_book_def)
  note inst = delete_removes_or_reports_absent
                [OF demo_up demo_cast d, where book = demo_book, unfolded r]
  from inst f have "delete_delete demo_env demo_id [book_A, demo_book]
                      = (Send 200 ''Book deleted successfully'', [book_A])"
    and "find (\<lambda>d. doc_id d = JStr demo_id) [book_A] = None"
    and "delete_delete demo_env demo_id [book_A] = (Send 404 ''Book not found'', [book_A])"
    by blast+
  with f d demo_up demo_cast show ?thesis by blast
qed

text \<open>
  Claim C8, as stated, fails: no record has the identifier \<^verbatim>\<open>abc\<close>, and a delete with
  that key replies 500, not 404.
\<close>

theorem delete_not_found_counterexample:
  "find (\<lambda>d. doc_id d = JStr ''abc'') [demo_book] = None
   \<and> delete_delete demo_env ''abc'' [demo_book] = (Send 500 ''Error deleting book'', [demo_book])"
  using demo_cast_abc
  by (simp add: delete_delete_def Book_findByIdAndDelete_def demo_book_def doc_id_def js_get_def
        demo_id_def)

subsection \<open>The edit route does not validate\<close>

text \<open>
  Claim C9. For an existing record, an edit that carries \<^verbatim>\<open>qrCode\<close> and none of the
  ten fields (and does not ask for another identifier) is applied as it is, while the
  database answers: the reply is 200, the stored record holds the submitted
  \<^verbatim>\<open>qrCode\<close> value itself, whatever the encoder would give, and a lookup by the identifier
  returns that record. An edit that sets one of \<^verbatim>\<open>title\<close>, \<^verbatim>\<open>author\<close>,
  \<^verbatim>\<open>publisher\<close>, \<^verbatim>\<open>isbn\<close> to the empty text is accepted too (once the encoder has
  given the new code): the stored record holds the empty text for that field.
\<close>

theorem edit_applies_fields_unvalidated:
  assumes "castObjectId e k = Some i" and "store_up e"
    and "find (\<lambda>d. doc_id d = JStr i) s = Some book"
  shows "(\<not> shouldUpdateQRCode upd \<longrightarrow> distinct (map fst upd) \<longrightarrow> (''qrCode'', q) \<in> set upd
           \<longrightarrow> \<not> list_ex (\<lambda>p. fst p = ''_id'' \<and> snd p \<noteq> JStr i) upd
           \<longrightarrow> put_edit e k upd s
                 = (Json 200 (JObj (fold (\<lambda>(k, v). js_set k v) upd book)),
                    replace_first (\<lambda>d. doc_id d = JStr i) (fold (\<lambda>(k, v). js_set k v) upd book) s)
               \<and> js_get (fold (\<lambda>(k, v). js_set k v) upd book) ''qrCode'' = q
               \<and> find (\<lambda>d. doc_id d = JStr i)
                     (replace_first (\<lambda>d. doc_id d = JStr i)
                        (fold (\<lambda>(k, v). js_set k v) upd book) s)
                   = Some (fold (\<lambda>(k, v). js_set k v) upd book))
       \<and> (f \<in> set [''title'', ''author'', ''publisher'', ''isbn'']
           \<longrightarrow> edit_qrData book [(f, JStr [])] = Some qrData \<longrightarrow> toDataURL e qrData = Some qrCode
           \<longrightarrow> put_edit e k [(f, JStr [])] s
                 = (Json 200 (JObj (js_set ''qrCode'' (JStr qrCode) (js_set f (JStr []) book))),
                    replace_first (\<lambda>d. doc_id d = JStr i)
                      (js_set ''qrCode'' (JStr qrCode) (js_set f (JStr []) book)) s)
               \<and> js_get (js_set ''qrCode'' (JStr qrCode) (js_set f (JStr []) book)) f = JStr []
               \<and> find (\<lambda>d. doc_id d = JStr i)
                     (replace_first (\<lambda>d. doc_id d = JStr i)
                        (js_set ''qrCode'' (JStr qrCode) (js_set f (JStr []) book)) s)
                   = Some (js_set ''qrCode'' (JStr qrCode) (js_set f (JStr []) book)))"
proof (intro conjI impI)
  assume n: "\<not> shouldUpdateQRCode upd" and d: "distinct (map fst upd)"
    and m: "(''qrCode'', q) \<in> set upd"
    and noid: "\<not> list_ex (\<lambda>p. fst p = ''_id'' \<and> snd p \<noteq> JStr i) upd"
  from assms n noid
  show "put_edit e k upd s
          = (Json 200 (JObj (fold (\<lambda>(k, v). js_set k v) upd book)),
             replace_first (\<lambda>d. doc_id d = JStr i) (fold (\<lambda>(k, v). js_set k v) upd book) s)"
    by (rule put_edit_plain)
  from d m show "js_get (fold (\<lambda>(k, v). js_set k v) upd book) ''qrCode'' = q"
    by (rule js_get_fold_member)
  from assms(3) noid
  show "find (\<lambda>d. doc_id d = JStr i)
          (replace_first (\<lambda>d. doc_id d = JStr i) (fold (\<lambda>(k, v). js_set k v) upd book) s)
        = Some (fold (\<lambda>(k, v). js_set k v) upd book)"
    by (rule find_after_update)
next
  assume f: "f \<in> set [''title'', ''author'', ''publisher'', ''isbn'']"
    and q: "edit_qrData book [(f, JStr [])] = Some qrData" "toDataURL e qrData = Some qrCode"
  from f have should: "shouldUpdateQRCode [(f, JStr [])]"
    by (auto simp: shouldUpdateQRCode_def Object_keys_def fieldsForQRCode_def)
  from f have noid: "\<not> list_ex (\<lambda>p. fst p = ''_id'' \<and> snd p \<noteq> JStr i) [(f, JStr [])]"
    by auto
  from f have fq: "f \<noteq> ''qrCode''"
    by auto
  then have upd: "js_set ''qrCode'' (JStr qrCode) [(f, JStr [])] = [(f, JStr []), (''qrCode'', JStr qrCode)]"
    by simp
  from put_edit_qr [OF assms should q noid]
  show "put_edit e k [(f, JStr [])] s
          = (Json 200 (JObj (js_set ''qrCode'' (JStr qrCode) (js_set f (JStr []) book))),
             replace_first (\<lambda>d. doc_id d = JStr i)
               (js_set ''qrCode'' (JStr qrCode) (js_set f (JStr []) book)) s)"
    using fq by simp
  from fq show "js_get (js_set ''qrCode'' (JStr qrCode) (js_set f (JStr []) book)) f = JStr []"
    by (simp add: js_get_js_set)
  from f have "\<not> list_ex (\<lambda>p. fst p = ''_id'' \<and> snd p \<noteq> JStr i)
                   [(f, JStr []), (''qrCode'', JStr qrCode)]"
    by auto
  from find_after_update [OF assms(3) this]
  show "find (\<lambda>d. doc_id d = JStr i)
          (replace_first (\<lambda>d. doc_id d = JStr i)
             (js_set ''qrCode'' (JStr qrCode) (js_set f (JStr []) book)) s)
        = Some (js_set ''qrCode'' (JStr qrCode) (js_set f (JStr []) book))"
    by simp
qed

theorem edit_applies_fields_unvalidated_witness:
  "castObjectId demo_env demo_id = Some demo_id \<and> store_up demo_env
   \<and> find (\<lambda>d. doc_id d = JStr demo_id) [demo_book] = Some demo_book
   \<and> \<not> shouldUpdateQRCode [(''qrCode'', JStr ''forged'')]
   \<and> distinct (map fst [(''qrCode'', JStr ''forged'')])
   \<and> (''qrCode'', JStr ''forged'') \<in> set [(''qrCode'', JStr ''forged'')]
   \<and> \<not> list_ex (\<lambda>p. fst p = ''_id'' \<and> snd p \<noteq> JStr demo_id) [(''qrCode'', JStr ''forged'')]
   \<and> put_edit demo_env demo_id [(''qrCode'', JStr ''forged'')] [demo_book]
       = (Json 200 (JObj demo_book_forged), [demo_book_forged])
   \<and> js_get demo_book_forged ''qrCode'' = JStr ''forged''
   \<and> find (\<lambda>d. doc_id d = JStr demo_id) [demo_book_forged] = Some demo_book_forged
   \<and> ''title'' \<in> set [''title'', ''author'', ''publisher'', ''isbn'']
   \<and> edit_qrData demo_book [(''title'', JStr [])] = Some demo_untitled_qrData
   \<and> toDataURL demo_env demo_untitled_qrData
       = Some (''data:image/png;base64,'' @ demo_untitled_qrData)
   \<and> put_edit demo_env demo_id [(''title'', JStr [])] [demo_book]
       = (Json 200 (JObj demo_book_untitled), [demo_book_untitled])
   \<and> js_get demo_book_untitled ''title'' = JStr []
   \<and> find (\<lambda>d. doc_id d = JStr demo_id) [demo_book_untitled] = Some demo_book_untitled"
proof -
  have should: "\<not> shouldUpdateQRCode [(''qrCode'', JStr ''forged'')]"
    by (simp add: shouldUpdateQRCode_def Object_keys_def fieldsForQRCode_def)
  have keys: "\<not> list_ex (\<lambda>p. fst p = ''_id'' \<and> snd p \<noteq> JStr demo_id)
                  [(''qrCode'', JStr ''forged'')]"
    by simp
  have enc: "toDataURL demo_env demo_untitled_qrData
               = Some (''data:image/png;base64,'' @ demo_untitled_qrData)"
    by (simp add: demo_env_def)
  have hyps: "distinct (map fst [(''qrCode'', JStr ''forged'')])"
    "(''qrCode'', JStr ''forged'') \<in> set [(''qrCode'', JStr ''forged'')]"
    "''title'' \<in> set [''title'', ''author'', ''publisher'', ''isbn'']"
    by simp_all
  from edit_applies_fields_unvalidated
         [OF demo_cast demo_up demo_find,
          where upd = "[(''qrCode'', JStr ''forged'')]" and q = "JStr ''forged''"
            and f = "''title''" and qrData = demo_untitled_qrData
            and qrCode = "''data:image/png;base64,'' @ demo_untitled_qrData"]
       should keys enc hyps demo_untitled_qrData_eq
  show ?thesis
    using demo_cast demo_up demo_find
    by (simp only: demo_forged_fold demo_untitled_set demo_replace simp_thms)
qed

subsection \<open>Keys that are no identifiers\<close>

text \<open>
  Claim C10. For a key that the identifier cast rejects, the delete route replies 500, and
  so does the detail route when the key is not made of digits only; neither replies 404, and
  the collection is untouched.
\<close>

theorem malformed_id_is_server_error:
  assumes "castObjectId e key = None"
  shows "(\<not> digits_only key
            \<longrightarrow> get_detail e key s = (Send 500 ''Error fetching book details'', s))
         \<and> delete_delete e key s = (Send 500 ''Error deleting book'', s)"
  using assms
  by (simp add: get_detail_def Book_findOne_def delete_delete_def Book_findByIdAndDelete_def)

theorem malformed_id_is_server_error_witness:
  "castObjectId demo_env ''abc'' = None \<and> \<not> digits_only ''abc''
   \<and> get_detail demo_env ''abc'' [demo_book]
       = (Send 500 ''Error fetching book details'', [demo_book])
   \<and> delete_delete demo_env ''abc'' [demo_book] = (Send 500 ''Error deleting book'', [demo_book])"
  using malformed_id_is_server_error [OF demo_cast_abc, of "[demo_book]"] demo_cast_abc demo_digits(3)
  by simp

end
